theory Spec2Isabelle
  imports Complex_Main "HOL-Library.Sublist"
begin

section \<open>Strings and JavaScript values\<close>

text \<open>
  A JavaScript string is a sequence of UTF-16 code units. The model covers the strings
  whose code units are below 256 (Basic Latin and the Latin-1 Supplement): one
  \<^typ>\<open>char\<close> is one code unit. Every term of the two wordlists of \<^verbatim>\<open>server.js\<close>
  lies in that range (the only non-ASCII letter is the c-cedilla of the eleventh banned
  term, code unit 231).
\<close>

definition cedilha :: char where
  "cedilha = char_of (231::nat)"

text \<open>
  \<^verbatim>\<open>String.prototype.toLowerCase\<close> on that range: the letters A..Z (65..90) and the
  Latin-1 capitals (192..222, the multiplication sign 215 excepted) move up by 32; every
  other code unit is left as it is.
\<close>

definition lower_char :: "char \<Rightarrow> char" where
  "lower_char c =
     (let n = (of_char c :: nat)
      in if (65 \<le> n \<and> n \<le> 90) \<or> (192 \<le> n \<and> n \<le> 222 \<and> n \<noteq> 215)
         then char_of (n + 32) else c)"

definition toLowerCase :: "string \<Rightarrow> string" where
  "toLowerCase s = map lower_char s"

text \<open>\<^verbatim>\<open>t.includes(w)\<close>: \<open>w\<close> occurs in \<open>t\<close> as a contiguous block.\<close>

definition includes_str :: "string \<Rightarrow> string \<Rightarrow> bool" where
  "includes_str t w = sublist w t"

text \<open>\<^verbatim>\<open>f.startsWith(p)\<close>.\<close>

definition startsWith :: "string \<Rightarrow> string \<Rightarrow> bool" where
  "startsWith f p = prefix p f"

text \<open>\<^verbatim>\<open>flags.join(", ")\<close>.\<close>

fun join :: "string \<Rightarrow> string list \<Rightarrow> string" where
  "join sep [] = []"
| "join sep [x] = x"
| "join sep (x # y # ys) = x @ sep @ join sep (y # ys)"

text \<open>
  A value as \<^verbatim>\<open>evaluateText\<close> can receive it. The function looks at its argument
  only through \<^verbatim>\<open>text || ""\<close> (is the value truthy?) and through \<^verbatim>\<open>String(...)\<close>
  (what string does it convert to, if the conversion returns?). \<open>JOther truthy conv\<close>
  stands for any value that is neither \<^verbatim>\<open>undefined\<close>, \<^verbatim>\<open>null\<close> nor a string
  (a boolean, a number, an object): \<open>truthy\<close> is its truth value and \<open>conv\<close> the result
  of converting it to a string, \<open>None\<close> when the conversion throws (an object whose
  \<^verbatim>\<open>toString\<close> throws, or one without a prototype such as
  \<^verbatim>\<open>Object.create(null)\<close>).
\<close>

datatype js_value =
    JUndefined
  | JNull
  | JString string
  | JOther bool "string option"

datatype erro =
    TypeError
  | ValidationError
  | InfraError

fun ToBoolean :: "js_value \<Rightarrow> bool" where
  "ToBoolean JUndefined = False"
| "ToBoolean JNull = False"
| "ToBoolean (JString s) = (s \<noteq> [])"
| "ToBoolean (JOther truthy conv) = truthy"

fun ToString :: "js_value \<Rightarrow> erro + string" where
  "ToString JUndefined = Inr ''undefined''"
| "ToString JNull = Inr ''null''"
| "ToString (JString s) = Inr s"
| "ToString (JOther truthy conv) = (case conv of None \<Rightarrow> Inl TypeError | Some s \<Rightarrow> Inr s)"

section \<open>The heuristic scorer\<close>

definition BANNED :: "string list" where
  "BANNED =
     [''matar'', ''assassinar'', ''sequestro'', ''drogas'', ''invadir conta'', ''hackear'',
      ''endereco residencial de'', ''cpf de'', ''chantagem'', ''espionar'',
      ''crian'' @ [cedilha] @ ''a'', ''pornografia'', ''explosivo'', ''arma'',
      ''branco/negro/gay'']"

definition SENSITIVE :: "string list" where
  "SENSITIVE =
     [''descobrir endereco'', ''seguir pessoa'', ''monitorar'', ''localizar pessoa'',
      ''documentos pessoais'', ''senha'', ''codigo 2fa'', ''dados bancarios'']"

subsection \<open>The numeral pattern\<close>

text \<open>
  \<^verbatim>\<open>/\b(\d{1,3}(\.\d{3})*|\d+)(,\d{2})?\b/.test(t)\<close>. The pattern has no flag, so
  \<^verbatim>\<open>\d\<close> is an ASCII digit and a word character is an ASCII letter, an ASCII digit or
  the underscore. A matcher state is the text that is left; each piece of the pattern maps
  a state to the list of states it can leave behind, so that every way the backtracking
  matcher can take is in the list.
\<close>

definition is_digit :: "char \<Rightarrow> bool" where
  "is_digit c = (let n = (of_char c :: nat) in 48 \<le> n \<and> n \<le> 57)"

definition is_word :: "char \<Rightarrow> bool" where
  "is_word c =
     (let n = (of_char c :: nat)
      in (48 \<le> n \<and> n \<le> 57) \<or> (65 \<le> n \<and> n \<le> 90) \<or> (97 \<le> n \<and> n \<le> 122) \<or> n = 95)"

text \<open>
  \<^verbatim>\<open>\b\<close>: the character before the position and the character after it differ in
  being word characters; beyond either end of the text there is no word character.
  \<open>prev\<close> says whether the character before the position is a word character.
\<close>

fun word_boundary :: "bool \<Rightarrow> string \<Rightarrow> bool" where
  "word_boundary prev [] = prev"
| "word_boundary prev (c # cs) = (prev \<noteq> is_word c)"

text \<open>\<^verbatim>\<open>\d{1,n}\<close>: what is left after one digit, after two, ..., after \<open>n\<close>.\<close>

fun digits_upto :: "nat \<Rightarrow> string \<Rightarrow> string list" where
  "digits_upto 0 s = []"
| "digits_upto (Suc n) [] = []"
| "digits_upto (Suc n) (c # cs) = (if is_digit c then cs # digits_upto n cs else [])"

text \<open>\<^verbatim>\<open>\d+\<close>.\<close>

fun digits_plus :: "string \<Rightarrow> string list" where
  "digits_plus [] = []"
| "digits_plus (c # cs) = (if is_digit c then cs # digits_plus cs else [])"

text \<open>\<^verbatim>\<open>(\.\d{3})*\<close>: no group, one group, two groups, ...\<close>

fun groups :: "string \<Rightarrow> string list" where
  "groups (p # a # b # c # rest) =
     (if p = CHR ''.'' \<and> is_digit a \<and> is_digit b \<and> is_digit c
      then (p # a # b # c # rest) # groups rest
      else [p # a # b # c # rest])"
| "groups s = [s]"

text \<open>\<^verbatim>\<open>(,\d{2})?\<close>: with the decimal pair, or without it.\<close>

fun decimals :: "string \<Rightarrow> string list" where
  "decimals (v # a # b # rest) =
     (if v = CHR '','' \<and> is_digit a \<and> is_digit b
      then [rest, v # a # b # rest]
      else [v # a # b # rest])"
| "decimals s = [s]"

text \<open>
  The whole pattern tried at one position. Whatever way is taken, the last character
  consumed before the closing \<^verbatim>\<open>\b\<close> is a digit, a word character.
\<close>

definition match_here :: "bool \<Rightarrow> string \<Rightarrow> bool" where
  "match_here prev s =
     (word_boundary prev s \<and>
      list_ex (\<lambda>r1. list_ex (word_boundary True) (decimals r1))
        (concat (map groups (digits_upto 3 s)) @ digits_plus s))"

text \<open>\<^verbatim>\<open>test\<close>: the pattern is tried at every position, from the left.\<close>

fun test_from :: "bool \<Rightarrow> string \<Rightarrow> bool" where
  "test_from prev [] = match_here prev []"
| "test_from prev (c # cs) = (match_here prev (c # cs) \<or> test_from (is_word c) cs)"

definition valores :: "string \<Rightarrow> bool" where
  "valores t = test_from False t"

subsection \<open>evaluateText\<close>

record avaliacao =
  score :: int
  flags :: "string list"

text \<open>
  One \<^verbatim>\<open>for (const w of LIST) if (t.includes(w)) { flags.push(TAG + w); score += PTS; }\<close>
  loop, the running \<^verbatim>\<open>score\<close> and \<^verbatim>\<open>flags\<close> passed along.
\<close>

fun varrer :: "string \<Rightarrow> int \<Rightarrow> string \<Rightarrow> string list \<Rightarrow> avaliacao \<Rightarrow> avaliacao" where
  "varrer tag pts t [] acc = acc"
| "varrer tag pts t (w # ws) acc =
     varrer tag pts t ws
       (if includes_str t w
        then \<lparr>score = score acc + pts, flags = flags acc @ [tag @ w]\<rparr>
        else acc)"

definition urgencia :: "string \<Rightarrow> bool" where
  "urgencia t = (includes_str t ''urgente'' \<or> includes_str t ''imediato'')"

text \<open>The body of \<^verbatim>\<open>evaluateText\<close> once its argument has been made a string.\<close>

definition avaliar :: "string \<Rightarrow> avaliacao" where
  "avaliar s =
     (let t = toLowerCase s;
          a0 = \<lparr>score = 0, flags = []\<rparr>;
          a1 = varrer ''BANNED:'' 100 t BANNED a0;
          a2 = varrer ''SENSITIVE:'' 30 t SENSITIVE a1;
          a3 = (if valores t then a2\<lparr>score := score a2 + 5\<rparr> else a2);
          a4 = (if urgencia t then a3\<lparr>score := score a3 + 5\<rparr> else a3)
      in a4)"

text \<open>\<^verbatim>\<open>String(text || "")\<close>, which throws when the conversion does.\<close>

definition coerce :: "js_value \<Rightarrow> erro + string" where
  "coerce text = ToString (if ToBoolean text then text else JString [])"

definition evaluateText :: "js_value \<Rightarrow> erro + avaliacao" where
  "evaluateText text = (case coerce text of Inl e \<Rightarrow> Inl e | Inr s \<Rightarrow> Inr (avaliar s))"

section \<open>The store, the ledger and the queue\<close>

datatype status = EM_REVISAO | PUBLICADA | BANIDA

datatype acao = APROVAR | AJUSTAR | REJEITAR

text \<open>
  Modelled from the spec: the Prisma schema is not in \<^verbatim>\<open>src/\<close>. The columns that a
  request supplies are typed after the data model of the spec (section 3) and after the way
  \<^verbatim>\<open>server.js\<close> reads them (the feed compares \<^verbatim>\<open>latitude\<close>, \<^verbatim>\<open>longitude\<close> and
  \<^verbatim>\<open>raioMetros\<close> with \<^verbatim>\<open>null\<close>). A row carries no \<^verbatim>\<open>riskScore\<close> until one is
  written. The \<^verbatim>\<open>id\<close> of a row is its key in the table.
\<close>

record campos =
  titulo :: string
  descricao :: string
  categoria :: string
  valorCentavos :: int
  prazoISO :: string
  scope :: string
  uf :: "string option"
  municipioIbge :: "string option"
  latitude :: "real option"
  longitude :: "real option"
  raioMetros :: "int option"

record recompensa = campos +
  criadorId :: nat
  status :: status
  riskScore :: "int option"

record moderacaoEvento =
  recompensaId :: nat
  recursoTipo :: string
  recursoId :: nat
  acao :: acao
  motivo :: string

text \<open>A job of the queue \<^verbatim>\<open>moderation\<close>: its name and its \<^verbatim>\<open>data.recompensaId\<close>.\<close>

record job =
  nome :: string
  data_recompensaId :: nat

record estado =
  recompensas :: "nat \<rightharpoonup> recompensa"
  proximoId :: nat
  eventos :: "moderacaoEvento list"
  fila :: "job list"

definition estado_inicial :: estado where
  "estado_inicial = \<lparr>recompensas = Map.empty, proximoId = 0, eventos = [], fila = []\<rparr>"

text \<open>
  Every \<^verbatim>\<open>await\<close> on the database or on the queue can throw. Which calls of one run of a
  handler throw is given from outside: a failed call changes nothing and throws.
\<close>

record falhas =
  falha_findUnique :: bool
  falha_update :: bool
  falha_evento :: bool
  falha_create :: bool
  falha_add :: bool

definition sem_falhas :: falhas where
  "sem_falhas = \<lparr>falha_findUnique = False, falha_update = False, falha_evento = False,
     falha_create = False, falha_add = False\<rparr>"

text \<open>\<^verbatim>\<open>prisma.recompensa.findUnique({ where: { id } })\<close>.\<close>

definition recompensa_findUnique :: "falhas \<Rightarrow> nat \<Rightarrow> estado \<Rightarrow> erro + recompensa option" where
  "recompensa_findUnique f i st =
     (if falha_findUnique f then Inl InfraError else Inr (recompensas st i))"

text \<open>
  \<^verbatim>\<open>prisma.recompensa.update({ where: { id }, data: { status, riskScore } })\<close>: the row
  with that id gets both columns, whatever its status was; it throws when there is no such
  row.
\<close>

definition recompensa_update :: "falhas \<Rightarrow> nat \<Rightarrow> status \<Rightarrow> int \<Rightarrow> estado \<Rightarrow> erro + estado" where
  "recompensa_update f i s n st =
     (if falha_update f then Inl InfraError
      else case recompensas st i of
             None \<Rightarrow> Inl InfraError
           | Some r \<Rightarrow> Inr (st\<lparr>recompensas := (recompensas st)(i \<mapsto> r\<lparr>status := s, riskScore := Some n\<rparr>)\<rparr>))"

text \<open>\<^verbatim>\<open>prisma.moderacaoEvento.create({ data })\<close>.\<close>

definition moderacaoEvento_create :: "falhas \<Rightarrow> moderacaoEvento \<Rightarrow> estado \<Rightarrow> erro + estado" where
  "moderacaoEvento_create f e st =
     (if falha_evento f then Inl InfraError else Inr (st\<lparr>eventos := eventos st @ [e]\<rparr>))"

text \<open>
  \<^verbatim>\<open>prisma.recompensa.create({ data })\<close>. The check of the request's fields is the
  schema's, which is not in \<^verbatim>\<open>src/\<close>: it is the parameter \<open>esquema\<close>, which gives the
  columns of a well-formed body and \<open>None\<close> for a body with a missing or malformed required
  field. The database gives the new row its id; \<open>linha\<close> is the row stored for the data
  \<^verbatim>\<open>{ criadorId, titulo, ..., raioMetros, status }\<close> of the call, which names no
  \<^verbatim>\<open>riskScore\<close>.
\<close>

definition linha :: "campos \<Rightarrow> nat \<Rightarrow> status \<Rightarrow> recompensa" where
  "linha c uid s =
     \<lparr>titulo = titulo c, descricao = descricao c, categoria = categoria c,
      valorCentavos = valorCentavos c, prazoISO = prazoISO c, scope = scope c,
      uf = uf c, municipioIbge = municipioIbge c, latitude = latitude c,
      longitude = longitude c, raioMetros = raioMetros c,
      criadorId = uid, status = s, riskScore = None\<rparr>"

definition recompensa_create ::
  "('b \<Rightarrow> campos option) \<Rightarrow> falhas \<Rightarrow> nat \<Rightarrow> 'b \<Rightarrow> status \<Rightarrow> estado \<Rightarrow> erro + (nat \<times> recompensa \<times> estado)" where
  "recompensa_create esquema f uid body s st =
     (case esquema body of
        None \<Rightarrow> Inl ValidationError
      | Some c \<Rightarrow>
          if falha_create f then Inl InfraError
          else let i = proximoId st; r = linha c uid s
               in Inr (i, r, st\<lparr>recompensas := (recompensas st)(i \<mapsto> r), proximoId := Suc i\<rparr>))"

text \<open>\<^verbatim>\<open>enqueueRecompensaModeration\<close>: \<^verbatim>\<open>moderationQueue.add("recompensa", { recompensaId }, ...)\<close>.\<close>

definition enqueueRecompensaModeration :: "falhas \<Rightarrow> nat \<Rightarrow> estado \<Rightarrow> erro + estado" where
  "enqueueRecompensaModeration f i st =
     (if falha_add f then Inl InfraError
      else Inr (st\<lparr>fila := fila st @ [\<lparr>nome = ''recompensa'', data_recompensaId = i\<rparr>]\<rparr>))"

section \<open>The moderation worker\<close>

text \<open>The template \<^verbatim>\<open>`${r.titulo}\n${r.descricao}`\<close>.\<close>

definition fullText :: "recompensa \<Rightarrow> string" where
  "fullText r = titulo r @ [CHR 0x0A] @ descricao r"

definition evento :: "nat \<Rightarrow> acao \<Rightarrow> string \<Rightarrow> moderacaoEvento" where
  "evento i a m =
     \<lparr>recompensaId = i, recursoTipo = ''Recompensa'', recursoId = i, acao = a, motivo = m\<rparr>"

text \<open>
  The handler given to \<^verbatim>\<open>new Worker("moderation", ...)\<close>. It returns \<open>Inr ()\<close> when it
  returns and \<open>Inl e\<close> when it throws, with the state it leaves behind.
\<close>

definition worker :: "falhas \<Rightarrow> estado \<Rightarrow> job \<Rightarrow> (erro + unit) \<times> estado" where
  "worker f st j =
     (let i = data_recompensaId j in
      case recompensa_findUnique f i st of
        Inl e \<Rightarrow> (Inl e, st)
      | Inr None \<Rightarrow> (Inr (), st)
      | Inr (Some r) \<Rightarrow>
          (case evaluateText (JString (fullText r)) of
             Inl e \<Rightarrow> (Inl e, st)
           | Inr a \<Rightarrow>
               if list_ex (\<lambda>fl. startsWith fl ''BANNED'') (flags a) then
                 (case recompensa_update f i BANIDA (score a) st of
                    Inl e \<Rightarrow> (Inl e, st)
                  | Inr st1 \<Rightarrow>
                      (case moderacaoEvento_create f (evento i REJEITAR (join '', '' (flags a))) st1 of
                         Inl e \<Rightarrow> (Inl e, st1)
                       | Inr st2 \<Rightarrow> (Inr (), st2)))
               else if score a \<ge> 40 then
                 (case moderacaoEvento_create f (evento i AJUSTAR (join '', '' (flags a))) st of
                    Inl e \<Rightarrow> (Inl e, st)
                  | Inr st1 \<Rightarrow> (Inr (), st1))
               else
                 (case recompensa_update f i PUBLICADA (score a) st of
                    Inl e \<Rightarrow> (Inl e, st)
                  | Inr st1 \<Rightarrow>
                      (case moderacaoEvento_create f (evento i APROVAR ''auto'') st1 of
                         Inl e \<Rightarrow> (Inl e, st1)
                       | Inr st2 \<Rightarrow> (Inr (), st2)))))"

text \<open>
  The queue runs the handler of a job again when it throws, \<^verbatim>\<open>attempts: 3\<close> times in
  all, and then drops the job. \<open>executar n fs st j\<close> makes up to \<open>n\<close> runs, the
  \<open>k\<close>-th under the faults \<open>fs ! k\<close> (none when the list is used up); it returns whether a
  run completed, the number of runs made and the last state.
\<close>

definition attempts :: nat where
  "attempts = 3"

fun executar :: "nat \<Rightarrow> falhas list \<Rightarrow> estado \<Rightarrow> job \<Rightarrow> bool \<times> nat \<times> estado" where
  "executar 0 fs st j = (False, 0, st)"
| "executar (Suc n) fs st j =
     (case worker (case fs of [] \<Rightarrow> sem_falhas | f # _ \<Rightarrow> f) st j of
        (Inr _, st') \<Rightarrow> (True, 1, st')
      | (Inl _, st') \<Rightarrow>
          (case executar n (tl fs) st' j of (ok, k, st'') \<Rightarrow> (ok, Suc k, st'')))"

definition processar :: "falhas list \<Rightarrow> estado \<Rightarrow> job \<Rightarrow> bool \<times> nat \<times> estado" where
  "processar fs st j = executar attempts fs st j"

section \<open>The producer\<close>

datatype resposta =
    Json200 nat status
  | Erro400 erro

text \<open>
  The handler of \<^verbatim>\<open>POST /recompensas\<close>, behind \<^verbatim>\<open>requireAuth\<close>, which has put the
  caller's id in \<^verbatim>\<open>req.userId\<close>. Whatever is thrown inside \<^verbatim>\<open>try\<close> is answered with
  status 400.
\<close>

definition post_recompensas ::
  "('b \<Rightarrow> campos option) \<Rightarrow> falhas \<Rightarrow> nat \<Rightarrow> 'b \<Rightarrow> estado \<Rightarrow> resposta \<times> estado" where
  "post_recompensas esquema f userId body st =
     (case recompensa_create esquema f userId body EM_REVISAO st of
        Inl e \<Rightarrow> (Erro400 e, st)
      | Inr (i, r, st1) \<Rightarrow>
          (case enqueueRecompensaModeration f i st1 of
             Inl e \<Rightarrow> (Erro400 e, st1)
           | Inr st2 \<Rightarrow> (Json200 i (status r), st2)))"

section \<open>Runs of the system\<close>

text \<open>
  One step of the system is one run of one of the two handlers, whatever the request or
  the job and whichever calls fail. The reachable states are those that steps produce from
  the empty database.
\<close>

inductive passo :: "('b \<Rightarrow> campos option) \<Rightarrow> estado \<Rightarrow> estado \<Rightarrow> bool" for esquema where
  criar: "post_recompensas esquema f u body st = (resp, st') \<Longrightarrow> passo esquema st st'"
| moderar: "worker f st j = (res, st') \<Longrightarrow> passo esquema st st'"

inductive alcancavel :: "('b \<Rightarrow> campos option) \<Rightarrow> estado \<Rightarrow> bool" for esquema where
  inicio: "alcancavel esquema estado_inicial"
| avanca: "alcancavel esquema st \<Longrightarrow> passo esquema st st' \<Longrightarrow> alcancavel esquema st'"

text \<open>
  The invariant of the data model: a row has a \<^verbatim>\<open>riskScore\<close> exactly when its status is
  \<^verbatim>\<open>PUBLICADA\<close> or \<^verbatim>\<open>BANIDA\<close>.
\<close>

definition inv_riskScore :: "estado \<Rightarrow> bool" where
  "inv_riskScore st =
     (\<forall>i r. recompensas st i = Some r \<longrightarrow>
        (riskScore r \<noteq> None) = (status r = PUBLICADA \<or> status r = BANIDA))"

text \<open>
  A row agrees with its own text: it is under review with no \<^verbatim>\<open>riskScore\<close>, or it has
  the status and the \<^verbatim>\<open>riskScore\<close> that the worker computes from its text.
\<close>

definition coerente :: "recompensa \<Rightarrow> bool" where
  "coerente r =
     (let a = avaliar (fullText r);
          banida = list_ex (\<lambda>fl. startsWith fl ''BANNED'') (flags a)
      in case status r of
           EM_REVISAO \<Rightarrow> riskScore r = None
         | BANIDA \<Rightarrow> banida \<and> riskScore r = Some (score a)
         | PUBLICADA \<Rightarrow> \<not> banida \<and> \<not> score a \<ge> 40 \<and> riskScore r = Some (score a))"

definition inv_coerente :: "estado \<Rightarrow> bool" where
  "inv_coerente st =
     (\<forall>i r. recompensas st i = Some r \<longrightarrow> i < proximoId st \<and> coerente r)"

section \<open>Example data\<close>

definition campos_exemplo :: "string \<Rightarrow> string \<Rightarrow> campos" where
  "campos_exemplo t d =
     \<lparr>titulo = t, descricao = d, categoria = ''geral'', valorCentavos = 5000,
      prazoISO = ''2025-12-31'', scope = ''NACIONAL'', uf = None, municipioIbge = None,
      latitude = None, longitude = None, raioMetros = None\<rparr>"

definition recompensa_exemplo :: "string \<Rightarrow> string \<Rightarrow> status \<Rightarrow> int option \<Rightarrow> recompensa" where
  "recompensa_exemplo t d s k =
     \<lparr>titulo = t, descricao = d, categoria = ''geral'', valorCentavos = 5000,
      prazoISO = ''2025-12-31'', scope = ''NACIONAL'', uf = None, municipioIbge = None,
      latitude = None, longitude = None, raioMetros = None,
      criadorId = 1, status = s, riskScore = k\<rparr>"

text \<open>A database whose only row has id 7, and the job that refers to it.\<close>

definition estado_exemplo :: "recompensa \<Rightarrow> estado" where
  "estado_exemplo r = \<lparr>recompensas = [7 \<mapsto> r], proximoId = 8, eventos = [], fila = []\<rparr>"

definition job_exemplo :: job where
  "job_exemplo = \<lparr>nome = ''recompensa'', data_recompensaId = 7\<rparr>"

text \<open>
  The database after one request with title \<^verbatim>\<open>Procura-se\<close> and description
  \<^verbatim>\<open>gato perdido\<close> and one run of the worker on its job.
\<close>

definition estado_moderado :: estado where
  "estado_moderado =
     \<lparr>recompensas = [0 \<mapsto> recompensa_exemplo ''Procura-se'' ''gato perdido'' PUBLICADA (Some 0)],
      proximoId = 1,
      eventos = [\<lparr>recompensaId = 0, recursoTipo = ''Recompensa'', recursoId = 0,
                  acao = APROVAR, motivo = ''auto''\<rparr>],
      fila = [\<lparr>nome = ''recompensa'', data_recompensaId = 0\<rparr>]\<rparr>"

text \<open>A schema for the examples: title and description are required.\<close>

definition esquema_exemplo :: "string option \<times> string option \<Rightarrow> campos option" where
  "esquema_exemplo b =
     (case b of (Some t, Some d) \<Rightarrow> Some (campos_exemplo t d) | _ \<Rightarrow> None)"

section \<open>Properties of the scorer\<close>

lemma varrer_flags:
  "flags (varrer tag pts t ws acc) = flags acc @ map ((@) tag) (filter (includes_str t) ws)"
  by (induction ws arbitrary: acc) simp_all

lemma varrer_score:
  "score (varrer tag pts t ws acc) = score acc + pts * int (length (filter (includes_str t) ws))"
  by (induction ws arbitrary: acc) (simp_all add: algebra_simps)

lemma avaliar_flags:
  "flags (avaliar s) =
     map ((@) ''BANNED:'') (filter (includes_str (toLowerCase s)) BANNED) @
     map ((@) ''SENSITIVE:'') (filter (includes_str (toLowerCase s)) SENSITIVE)"
  by (simp add: avaliar_def Let_def varrer_flags)

lemma avaliar_score:
  "score (avaliar s) =
     100 * int (length (filter (includes_str (toLowerCase s)) BANNED)) +
     30 * int (length (filter (includes_str (toLowerCase s)) SENSITIVE)) +
     (if valores (toLowerCase s) then 5 else 0) +
     (if urgencia (toLowerCase s) then 5 else 0)"
  by (simp add: avaliar_def Let_def varrer_score)

lemma evaluateText_JString: "evaluateText (JString s) = Inr (avaliar s)"
  by (cases s) (simp_all add: evaluateText_def coerce_def)

lemma distinct_wordlists: "distinct (BANNED @ SENSITIVE)"
  by code_simp

lemma lower_wordlists: "list_all (\<lambda>w. toLowerCase w = w) (BANNED @ SENSITIVE)"
  by code_simp

lemma count_list_map_tag:
  "distinct ws \<Longrightarrow> count_list (map ((@) tag) (filter P ws)) (tag @ w) = (if w \<in> set ws \<and> P w then 1 else 0)"
  by (induction ws) auto

lemma count_list_other_tag:
  "\<forall>w'. tag' @ w' \<noteq> tag @ w \<Longrightarrow> count_list (map ((@) tag') ws) (tag @ w) = 0"
  by (induction ws) auto

lemma distinct_flags: "distinct (flags (avaliar s))"
  using distinct_wordlists by (auto simp: avaliar_flags distinct_map inj_on_def)

lemma includes_lower:
  assumes "list_all (\<lambda>w. toLowerCase w = w) ws" and "w \<in> set ws" and "includes_str t w"
  shows "includes_str (toLowerCase t) w"
proof -
  have "toLowerCase w = w"
    using assms(1,2) by (simp add: list_all_iff)
  moreover have "sublist (map lower_char w) (map lower_char t)"
    using assms(3) unfolding includes_str_def by (rule map_mono_sublist)
  ultimately show ?thesis
    by (simp add: includes_str_def toLowerCase_def)
qed

lemma startsWith_tags:
  "startsWith (''BANNED:'' @ w) ''BANNED''" "\<not> startsWith (''SENSITIVE:'' @ w) ''BANNED''"
  by (simp_all add: startsWith_def)

lemma flags_banned_iff:
  "list_ex (\<lambda>fl. startsWith fl ''BANNED'') (flags (avaliar s)) \<longleftrightarrow>
     (\<exists>w \<in> set BANNED. includes_str (toLowerCase s) w)"
proof -
  have "list_ex (\<lambda>fl. startsWith fl ''BANNED'') (map ((@) ''BANNED:'') ws) \<longleftrightarrow> ws \<noteq> []" for ws
    by (induction ws) (simp_all add: startsWith_tags del: append.simps)
  moreover have "\<not> list_ex (\<lambda>fl. startsWith fl ''BANNED'') (map ((@) ''SENSITIVE:'') ws)" for ws
    by (induction ws) (simp_all add: startsWith_tags del: append.simps)
  ultimately show ?thesis
    by (simp add: avaliar_flags filter_empty_conv del: append.simps)
qed

section \<open>Properties of the worker\<close>

lemma count_banned_flag:
  "count_list (flags (avaliar s)) (''BANNED:'' @ w) =
     (if w \<in> set BANNED \<and> includes_str (toLowerCase s) w then 1 else 0)"
proof -
  have d: "distinct BANNED"
    using distinct_wordlists by simp
  have "count_list (map ((@) ''SENSITIVE:'') ws) (''BANNED:'' @ w) = 0" for ws
    by (rule count_list_other_tag) simp
  then show ?thesis
    unfolding avaliar_flags count_list_append count_list_map_tag [OF d]
    by simp
qed

lemma worker_found:
  assumes "recompensas st (data_recompensaId j) = Some r" and "\<not> falha_findUnique f"
  shows "worker f st j =
     (let i = data_recompensaId j; a = avaliar (fullText r) in
      if \<exists>w \<in> set BANNED. includes_str (toLowerCase (fullText r)) w then
        (if falha_update f then (Inl InfraError, st)
         else if falha_evento f
           then (Inl InfraError, st\<lparr>recompensas := (recompensas st)(i \<mapsto> r\<lparr>status := BANIDA, riskScore := Some (score a)\<rparr>)\<rparr>)
           else (Inr (), st\<lparr>recompensas := (recompensas st)(i \<mapsto> r\<lparr>status := BANIDA, riskScore := Some (score a)\<rparr>),
                            eventos := eventos st @ [evento i REJEITAR (join '', '' (flags a))]\<rparr>))
      else if score a \<ge> 40 then
        (if falha_evento f then (Inl InfraError, st)
         else (Inr (), st\<lparr>eventos := eventos st @ [evento i AJUSTAR (join '', '' (flags a))]\<rparr>))
      else
        (if falha_update f then (Inl InfraError, st)
         else if falha_evento f
           then (Inl InfraError, st\<lparr>recompensas := (recompensas st)(i \<mapsto> r\<lparr>status := PUBLICADA, riskScore := Some (score a)\<rparr>)\<rparr>)
           else (Inr (), st\<lparr>recompensas := (recompensas st)(i \<mapsto> r\<lparr>status := PUBLICADA, riskScore := Some (score a)\<rparr>),
                            eventos := eventos st @ [evento i APROVAR ''auto'']\<rparr>)))"
  using assms
  by (simp add: worker_def Let_def recompensa_findUnique_def evaluateText_JString
      flags_banned_iff recompensa_update_def moderacaoEvento_create_def del: append.simps)

lemma fullText_update [simp]:
  "fullText (r\<lparr>status := s, riskScore := k\<rparr>) = fullText r"
  by (simp add: fullText_def)

lemma worker_effect:
  assumes "worker f st j = (res, st')"
  shows "proximoId st' = proximoId st \<and> fila st' = fila st \<and>
     (recompensas st' = recompensas st \<or>
      (\<exists>r s. recompensas st (data_recompensaId j) = Some r \<and>
         recompensas st' = (recompensas st)(data_recompensaId j \<mapsto>
            r\<lparr>status := s, riskScore := Some (score (avaliar (fullText r)))\<rparr>) \<and>
         (if list_ex (\<lambda>fl. startsWith fl ''BANNED'') (flags (avaliar (fullText r)))
          then s = BANIDA
          else s = PUBLICADA \<and> \<not> score (avaliar (fullText r)) \<ge> 40)))"
proof (cases "falha_findUnique f")
  case True
  then show ?thesis
    using assms by (simp add: worker_def recompensa_findUnique_def)
next
  case False
  show ?thesis
  proof (cases "recompensas st (data_recompensaId j)")
    case None
    then show ?thesis
      using assms False by (simp add: worker_def recompensa_findUnique_def)
  next
    case (Some r)
    show ?thesis
      using assms unfolding worker_found [OF Some False] Let_def flags_banned_iff [symmetric]
      by (auto simp: Some split: if_splits)
  qed
qed

lemma post_recompensas_effect:
  assumes "post_recompensas esquema f u body st = (resp, st')"
  shows "st' = st \<or>
     (\<exists>c. esquema body = Some c \<and>
        recompensas st' = (recompensas st)(proximoId st \<mapsto> linha c u EM_REVISAO) \<and>
        proximoId st' = Suc (proximoId st) \<and> eventos st' = eventos st)"
  using assms
  by (auto simp: post_recompensas_def recompensa_create_def enqueueRecompensaModeration_def Let_def
      split: option.splits if_splits)

lemma coerente_linha: "coerente (linha c u EM_REVISAO)"
  by (simp add: coerente_def linha_def Let_def)

lemma inv_coerente_passo:
  assumes "passo esquema st st'" and "inv_coerente st"
  shows "inv_coerente st'"
  using assms
proof (cases rule: passo.cases)
  case (criar f u body resp)
  from post_recompensas_effect [OF criar] show ?thesis
  proof
    assume "st' = st"
    with assms(2) show ?thesis by simp
  next
    assume "\<exists>c. esquema body = Some c \<and>
        recompensas st' = (recompensas st)(proximoId st \<mapsto> linha c u EM_REVISAO) \<and>
        proximoId st' = Suc (proximoId st) \<and> eventos st' = eventos st"
    then obtain c where c: "recompensas st' = (recompensas st)(proximoId st \<mapsto> linha c u EM_REVISAO)"
      "proximoId st' = Suc (proximoId st)"
      by blast
    show ?thesis
      unfolding inv_coerente_def c
      using assms(2) coerente_linha [of c u]
      by (auto simp: inv_coerente_def less_Suc_eq)
  qed
next
  case (moderar f j res)
  from worker_effect [OF moderar]
  have p: "proximoId st' = proximoId st"
    and d: "recompensas st' = recompensas st \<or>
      (\<exists>r s. recompensas st (data_recompensaId j) = Some r \<and>
         recompensas st' = (recompensas st)(data_recompensaId j \<mapsto>
            r\<lparr>status := s, riskScore := Some (score (avaliar (fullText r)))\<rparr>) \<and>
         (if list_ex (\<lambda>fl. startsWith fl ''BANNED'') (flags (avaliar (fullText r)))
          then s = BANIDA
          else s = PUBLICADA \<and> \<not> score (avaliar (fullText r)) \<ge> 40))"
    by simp_all
  from d show ?thesis
  proof
    assume "recompensas st' = recompensas st"
    with p assms(2) show ?thesis by (simp add: inv_coerente_def)
  next
    assume "\<exists>r s. recompensas st (data_recompensaId j) = Some r \<and>
         recompensas st' = (recompensas st)(data_recompensaId j \<mapsto>
            r\<lparr>status := s, riskScore := Some (score (avaliar (fullText r)))\<rparr>) \<and>
         (if list_ex (\<lambda>fl. startsWith fl ''BANNED'') (flags (avaliar (fullText r)))
          then s = BANIDA
          else s = PUBLICADA \<and> \<not> score (avaliar (fullText r)) \<ge> 40)"
    then obtain r s where r: "recompensas st (data_recompensaId j) = Some r"
      and u: "recompensas st' = (recompensas st)(data_recompensaId j \<mapsto>
            r\<lparr>status := s, riskScore := Some (score (avaliar (fullText r)))\<rparr>)"
      and s: "if list_ex (\<lambda>fl. startsWith fl ''BANNED'') (flags (avaliar (fullText r)))
          then s = BANIDA
          else s = PUBLICADA \<and> \<not> score (avaliar (fullText r)) \<ge> 40"
      by blast
    have "coerente (r\<lparr>status := s, riskScore := Some (score (avaliar (fullText r)))\<rparr>)"
      using s by (simp add: coerente_def Let_def split: if_splits)
    then show ?thesis
      unfolding inv_coerente_def u p
      using assms(2) r by (auto simp: inv_coerente_def)
  qed
qed

lemma inv_coerente_alcancavel: "alcancavel esquema st \<Longrightarrow> inv_coerente st"
proof (induction rule: alcancavel.induct)
  case inicio
  show ?case by (simp add: inv_coerente_def estado_inicial_def)
next
  case (avanca st st')
  then show ?case by (simp add: inv_coerente_passo)
qed

lemma proximoId_fresh: "alcancavel esquema st \<Longrightarrow> recompensas st (proximoId st) = None"
  using inv_coerente_alcancavel [of esquema st]
  by (cases "recompensas st (proximoId st)") (auto simp: inv_coerente_def)

lemma inv_riskScore_passo:
  assumes "passo esquema st st'" and "inv_riskScore st"
  shows "inv_riskScore st'"
  using assms
proof (cases rule: passo.cases)
  case (criar f u body resp)
  from post_recompensas_effect [OF criar] show ?thesis
  proof
    assume "st' = st"
    with assms(2) show ?thesis by simp
  next
    assume "\<exists>c. esquema body = Some c \<and>
        recompensas st' = (recompensas st)(proximoId st \<mapsto> linha c u EM_REVISAO) \<and>
        proximoId st' = Suc (proximoId st) \<and> eventos st' = eventos st"
    then obtain c where c: "recompensas st' = (recompensas st)(proximoId st \<mapsto> linha c u EM_REVISAO)"
      by blast
    show ?thesis
      unfolding inv_riskScore_def c
      using assms(2) by (auto simp: inv_riskScore_def linha_def)
  qed
next
  case (moderar f j res)
  from worker_effect [OF moderar]
  have "recompensas st' = recompensas st \<or>
      (\<exists>r s. recompensas st (data_recompensaId j) = Some r \<and>
         recompensas st' = (recompensas st)(data_recompensaId j \<mapsto>
            r\<lparr>status := s, riskScore := Some (score (avaliar (fullText r)))\<rparr>) \<and>
         (if list_ex (\<lambda>fl. startsWith fl ''BANNED'') (flags (avaliar (fullText r)))
          then s = BANIDA
          else s = PUBLICADA \<and> \<not> score (avaliar (fullText r)) \<ge> 40))"
    by simp
  then show ?thesis
  proof
    assume "recompensas st' = recompensas st"
    with assms(2) show ?thesis by (simp add: inv_riskScore_def)
  next
    assume "\<exists>r s. recompensas st (data_recompensaId j) = Some r \<and>
         recompensas st' = (recompensas st)(data_recompensaId j \<mapsto>
            r\<lparr>status := s, riskScore := Some (score (avaliar (fullText r)))\<rparr>) \<and>
         (if list_ex (\<lambda>fl. startsWith fl ''BANNED'') (flags (avaliar (fullText r)))
          then s = BANIDA
          else s = PUBLICADA \<and> \<not> score (avaliar (fullText r)) \<ge> 40)"
    then obtain r s where u: "recompensas st' = (recompensas st)(data_recompensaId j \<mapsto>
            r\<lparr>status := s, riskScore := Some (score (avaliar (fullText r)))\<rparr>)"
      and s: "s = BANIDA \<or> s = PUBLICADA"
      by (auto split: if_splits)
    show ?thesis
      unfolding inv_riskScore_def u
      using assms(2) s by (auto simp: inv_riskScore_def)
  qed
qed

lemma worker_ajustar:
  assumes "recompensas st (data_recompensaId j) = Some r"
    and "\<not> list_ex (\<lambda>fl. startsWith fl ''BANNED'') (flags (avaliar (fullText r)))"
    and "score (avaliar (fullText r)) \<ge> 40"
    and "\<not> falha_findUnique f" and "\<not> falha_evento f"
  shows "worker f st j =
      (Inr (), st\<lparr>eventos := eventos st @
         [\<lparr>recompensaId = data_recompensaId j, recursoTipo = ''Recompensa'',
           recursoId = data_recompensaId j, acao = AJUSTAR,
           motivo = join '', '' (flags (avaliar (fullText r)))\<rparr>]\<rparr>)"
  using assms(2,3,5) unfolding flags_banned_iff
  by (simp add: worker_found [OF assms(1) assms(4)] Let_def evento_def)

lemma worker_writes_riskScore:
  assumes "worker f st j = (res, st')" and "recompensas st' k = Some r'"
    and "recompensas st k \<noteq> Some r'"
  shows "k = data_recompensaId j \<and> riskScore r' \<noteq> None \<and> (status r' = PUBLICADA \<or> status r' = BANIDA)"
proof -
  from worker_effect [OF assms(1)]
  have "recompensas st' = recompensas st \<or>
      (\<exists>r s. recompensas st (data_recompensaId j) = Some r \<and>
         recompensas st' = (recompensas st)(data_recompensaId j \<mapsto>
            r\<lparr>status := s, riskScore := Some (score (avaliar (fullText r)))\<rparr>) \<and>
         (if list_ex (\<lambda>fl. startsWith fl ''BANNED'') (flags (avaliar (fullText r)))
          then s = BANIDA
          else s = PUBLICADA \<and> \<not> score (avaliar (fullText r)) \<ge> 40))"
    by simp
  then show ?thesis
    using assms(2,3) by (auto split: if_splits)
qed

lemma worker_rerun:
  assumes r: "recompensas st (data_recompensaId j) = Some r"
    and b: "list_ex (\<lambda>fl. startsWith fl ''BANNED'') (flags (avaliar (fullText r)))
            \<or> \<not> score (avaliar (fullText r)) \<ge> 40"
    and g: "\<not> falha_findUnique g" "\<not> falha_update g" "\<not> falha_evento g"
  shows "worker g (st\<lparr>recompensas := (recompensas st)(data_recompensaId j \<mapsto>
            r\<lparr>status := s, riskScore := k\<rparr>)\<rparr>) j = (Inr (), snd (worker g st j))"
proof -
  let ?st1 = "st\<lparr>recompensas := (recompensas st)(data_recompensaId j \<mapsto> r\<lparr>status := s, riskScore := k\<rparr>)\<rparr>"
  have 2: "recompensas ?st1 (data_recompensaId j) = Some (r\<lparr>status := s, riskScore := k\<rparr>)"
    by simp
  show ?thesis
    using b g unfolding flags_banned_iff
    by (auto simp: worker_found [OF 2 g(1)] worker_found [OF r g(1)] Let_def)
qed

lemma worker_evento_falha:
  assumes r: "recompensas st (data_recompensaId j) = Some r"
    and b: "list_ex (\<lambda>fl. startsWith fl ''BANNED'') (flags (avaliar (fullText r)))
            \<or> \<not> score (avaliar (fullText r)) \<ge> 40"
    and f: "\<not> falha_findUnique f" "\<not> falha_update f" "falha_evento f"
  shows "worker f st j =
     (Inl InfraError,
      st\<lparr>recompensas := (recompensas st)(data_recompensaId j \<mapsto>
           r\<lparr>status := (if list_ex (\<lambda>fl. startsWith fl ''BANNED'') (flags (avaliar (fullText r)))
                         then BANIDA else PUBLICADA),
             riskScore := Some (score (avaliar (fullText r)))\<rparr>)\<rparr>)"
  using b f unfolding flags_banned_iff
  by (auto simp: worker_found [OF r f(1)] Let_def)

lemma worker_primeira_falha:
  assumes r: "recompensas st (data_recompensaId j) = Some r" and f: "\<not> falha_findUnique f"
    and w: "if \<not> list_ex (\<lambda>fl. startsWith fl ''BANNED'') (flags (avaliar (fullText r)))
               \<and> score (avaliar (fullText r)) \<ge> 40
            then falha_evento f else falha_update f"
  shows "worker f st j = (Inl InfraError, st)"
  using w unfolding flags_banned_iff
  by (auto simp: worker_found [OF r f] Let_def split: if_splits)

lemma worker_falha_iff:
  assumes r: "recompensas st (data_recompensaId j) = Some r" and f: "\<not> falha_findUnique f"
  shows "(fst (worker f st j) = Inl InfraError) =
     (if \<not> list_ex (\<lambda>fl. startsWith fl ''BANNED'') (flags (avaliar (fullText r)))
               \<and> score (avaliar (fullText r)) \<ge> 40
      then falha_evento f else falha_update f \<or> falha_evento f)"
  unfolding flags_banned_iff
  by (auto simp: worker_found [OF r f] Let_def split: if_splits)

lemma toLowerCase_append: "toLowerCase (t @ e) = toLowerCase t @ toLowerCase e"
  by (simp add: toLowerCase_def)

lemma includes_str_append: "includes_str t w \<Longrightarrow> includes_str (t @ e) w"
proof -
  assume "includes_str t w"
  then obtain ps ss where "t = ps @ w @ ss"
    by (auto simp: includes_str_def sublist_def)
  then have "t @ e = ps @ w @ (ss @ e)"
    by simp
  then show ?thesis
    unfolding includes_str_def by (simp only: sublist_appendI)
qed

lemma includes_lower_append:
  "includes_str (toLowerCase t) w \<Longrightarrow> includes_str (toLowerCase (t @ e)) w"
  by (simp add: toLowerCase_append includes_str_append)

lemma urgencia_append: "urgencia (toLowerCase t) \<Longrightarrow> urgencia (toLowerCase (t @ e))"
  unfolding urgencia_def using includes_lower_append by blast

lemma length_filter_mono:
  "(\<And>x. x \<in> set xs \<Longrightarrow> P x \<Longrightarrow> Q x) \<Longrightarrow> length (filter P xs) \<le> length (filter Q xs)"
  by (induction xs) auto

lemma length_filter_strict:
  "(\<And>x. x \<in> set xs \<Longrightarrow> P x \<Longrightarrow> Q x) \<Longrightarrow> y \<in> set xs \<Longrightarrow> Q y \<Longrightarrow> \<not> P y
     \<Longrightarrow> length (filter P xs) < length (filter Q xs)"
proof (induction xs)
  case Nil
  then show ?case by simp
next
  case (Cons x xs)
  have m: "length (filter P xs) \<le> length (filter Q xs)"
    using Cons.prems(1) by (intro length_filter_mono) auto
  show ?case
  proof (cases "y = x")
    case True
    then show ?thesis using Cons.prems(3,4) m by simp
  next
    case False
    then have "length (filter P xs) < length (filter Q xs)"
      using Cons by auto
    then show ?thesis using Cons.prems(1) by auto
  qed
qed

lemma filter_cong_set: "(\<And>x. x \<in> set xs \<Longrightarrow> P x = Q x) \<Longrightarrow> filter P xs = filter Q xs"
  by (induction xs) auto

lemma passo_keeps_terminal:
  assumes i: "inv_coerente st" and p: "passo esquema st st'"
    and r: "recompensas st k = Some r" and t: "status r \<noteq> EM_REVISAO"
  shows "recompensas st' k = Some r"
  using p
proof (cases rule: passo.cases)
  case (criar f u body resp)
  have k: "k < proximoId st"
    using i r by (simp add: inv_coerente_def)
  from post_recompensas_effect [OF criar] show ?thesis
  proof
    assume "st' = st"
    with r show ?thesis by simp
  next
    assume "\<exists>c. esquema body = Some c \<and>
        recompensas st' = (recompensas st)(proximoId st \<mapsto> linha c u EM_REVISAO) \<and>
        proximoId st' = Suc (proximoId st) \<and> eventos st' = eventos st"
    then obtain c where "recompensas st' = (recompensas st)(proximoId st \<mapsto> linha c u EM_REVISAO)"
      by blast
    then show ?thesis
      using k r by simp
  qed
next
  case (moderar f j res)
  have c: "coerente r"
    using i r by (simp add: inv_coerente_def)
  from worker_effect [OF moderar]
  have "recompensas st' = recompensas st \<or>
      (\<exists>r0 s. recompensas st (data_recompensaId j) = Some r0 \<and>
         recompensas st' = (recompensas st)(data_recompensaId j \<mapsto>
            r0\<lparr>status := s, riskScore := Some (score (avaliar (fullText r0)))\<rparr>) \<and>
         (if list_ex (\<lambda>fl. startsWith fl ''BANNED'') (flags (avaliar (fullText r0)))
          then s = BANIDA
          else s = PUBLICADA \<and> \<not> score (avaliar (fullText r0)) \<ge> 40))"
    by simp
  then show ?thesis
  proof
    assume "recompensas st' = recompensas st"
    with r show ?thesis by simp
  next
    assume "\<exists>r0 s. recompensas st (data_recompensaId j) = Some r0 \<and>
         recompensas st' = (recompensas st)(data_recompensaId j \<mapsto>
            r0\<lparr>status := s, riskScore := Some (score (avaliar (fullText r0)))\<rparr>) \<and>
         (if list_ex (\<lambda>fl. startsWith fl ''BANNED'') (flags (avaliar (fullText r0)))
          then s = BANIDA
          else s = PUBLICADA \<and> \<not> score (avaliar (fullText r0)) \<ge> 40)"
    then obtain r0 s where r0: "recompensas st (data_recompensaId j) = Some r0"
      and u: "recompensas st' = (recompensas st)(data_recompensaId j \<mapsto>
            r0\<lparr>status := s, riskScore := Some (score (avaliar (fullText r0)))\<rparr>)"
      and s: "if list_ex (\<lambda>fl. startsWith fl ''BANNED'') (flags (avaliar (fullText r0)))
          then s = BANIDA
          else s = PUBLICADA \<and> \<not> score (avaliar (fullText r0)) \<ge> 40"
      by blast
    show ?thesis
    proof (cases "k = data_recompensaId j")
      case False
      then show ?thesis using u r by simp
    next
      case True
      with r r0 have e: "r0 = r" by simp
      have "s = status r \<and> Some (score (avaliar (fullText r))) = riskScore r"
        using c t s unfolding e
        by (cases "status r") (simp_all add: coerente_def Let_def split: if_splits)
      then have "r\<lparr>status := s, riskScore := Some (score (avaliar (fullText r)))\<rparr> = r"
        by simp
      then show ?thesis
        using u True unfolding e by simp
    qed
  qed
qed

lemma alcancavel_rtranclp:
  "(passo esquema)\<^sup>*\<^sup>* st st' \<Longrightarrow> alcancavel esquema st \<Longrightarrow> alcancavel esquema st'"
  by (induction rule: rtranclp_induct) (auto intro: alcancavel.avanca)

lemma rtranclp_keeps_terminal:
  assumes "(passo esquema)\<^sup>*\<^sup>* st st'" and "alcancavel esquema st"
    and "recompensas st k = Some r" and "status r \<noteq> EM_REVISAO"
  shows "recompensas st' k = Some r"
  using assms
proof (induction rule: rtranclp_induct)
  case base
  then show ?case by simp
next
  case (step y z)
  have "alcancavel esquema y"
    using step.hyps(1) step.prems(1) by (rule alcancavel_rtranclp)
  then have a: "inv_coerente y"
    by (rule inv_coerente_alcancavel)
  have b: "recompensas y k = Some r"
    using step.IH step.prems by blast
  show ?case
    using a step.hyps(2) b step.prems(3) by (rule passo_keeps_terminal)
qed

lemma worker_never_back_to_review:
  assumes "worker f st j = (res, st')" and "recompensas st' k = Some r'"
    and "status r' = EM_REVISAO"
  shows "recompensas st k = Some r'"
  using worker_writes_riskScore [OF assms(1,2)] assms(3) by auto

lemma worker_aprova:
  assumes r: "recompensas st (data_recompensaId j) = Some r"
    and e: "avaliar (fullText r) = \<lparr>score = n, flags = []\<rparr>" and n: "\<not> n \<ge> 40"
    and f: "\<not> falha_findUnique f" "\<not> falha_update f" "\<not> falha_evento f"
  shows "worker f st j =
     (Inr (),
      st\<lparr>recompensas := (recompensas st)(data_recompensaId j \<mapsto>
             r\<lparr>status := PUBLICADA, riskScore := Some n\<rparr>),
          eventos := eventos st @
            [\<lparr>recompensaId = data_recompensaId j, recursoTipo = ''Recompensa'',
              recursoId = data_recompensaId j, acao = APROVAR, motivo = ''auto''\<rparr>]\<rparr>)"
proof -
  have b: "\<not> (\<exists>w \<in> set BANNED. includes_str (toLowerCase (fullText r)) w)"
    using flags_banned_iff [of "fullText r"] unfolding e by simp
  show ?thesis
    using b n f by (simp add: worker_found [OF r f(1)] Let_def evento_def e)
qed

text \<open>The queue makes at most \<^verbatim>\<open>attempts\<close> runs of a job.\<close>

lemma executar_runs: "executar n fs st j = (ok, k, st') \<Longrightarrow> k \<le> n"
proof (induction n arbitrary: fs st ok k st')
  case 0
  then show ?case by simp
next
  case (Suc n)
  obtain res st1 where w: "worker (case fs of [] \<Rightarrow> sem_falhas | f # _ \<Rightarrow> f) st j = (res, st1)"
    by (cases "worker (case fs of [] \<Rightarrow> sem_falhas | f # _ \<Rightarrow> f) st j")
  show ?case
  proof (cases res)
    case (Inr u)
    then show ?thesis using Suc.prems w by simp
  next
    case (Inl e)
    obtain ok' k' st'' where x: "executar n (tl fs) st1 j = (ok', k', st'')"
      by (cases "executar n (tl fs) st1 j")
    have "k' \<le> n"
      using x by (rule Suc.IH)
    then show ?thesis
      using Suc.prems w Inl x by simp
  qed
qed

lemma processar_at_most_three_runs: "processar fs st j = (ok, k, st') \<Longrightarrow> k \<le> 3"
  unfolding processar_def attempts_def by (rule executar_runs)

section \<open>The claims\<close>

text \<open>
  C4. For every text, \<^verbatim>\<open>evaluateText\<close> works on the lower-cased text \<open>t\<close>. Its flags are
  \<^verbatim>\<open>BANNED:w\<close> for the banned terms \<open>w\<close> that occur in \<open>t\<close>, in the order of the banned
  list, followed by \<^verbatim>\<open>SENSITIVE:w\<close> for the sensitive terms that occur in \<open>t\<close>, in the
  order of the sensitive list. Its score is 100 for each of the former, 30 for each of the
  latter, 5 if the numeral pattern matches and 5 if an urgency marker occurs. No term is
  counted twice and no flag appears twice.
\<close>

theorem evaluateText_score_and_flags:
  "(let t = toLowerCase s;
        bs = filter (includes_str t) BANNED;
        ss = filter (includes_str t) SENSITIVE
    in evaluateText (JString s) =
         Inr \<lparr>score = 100 * int (length bs) + 30 * int (length ss)
                       + (if valores t then 5 else 0) + (if urgencia t then 5 else 0),
              flags = map ((@) ''BANNED:'') bs @ map ((@) ''SENSITIVE:'') ss\<rparr>
       \<and> distinct bs \<and> distinct ss
       \<and> distinct (map ((@) ''BANNED:'') bs @ map ((@) ''SENSITIVE:'') ss))"
proof -
  let ?t = "toLowerCase s"
  let ?bs = "filter (includes_str ?t) BANNED"
  let ?ss = "filter (includes_str ?t) SENSITIVE"
  have "avaliar s = \<lparr>score = score (avaliar s), flags = flags (avaliar s)\<rparr>"
    by simp
  then have a: "evaluateText (JString s) =
      Inr \<lparr>score = 100 * int (length ?bs) + 30 * int (length ?ss)
                    + (if valores ?t then 5 else 0) + (if urgencia ?t then 5 else 0),
           flags = map ((@) ''BANNED:'') ?bs @ map ((@) ''SENSITIVE:'') ?ss\<rparr>"
    by (simp only: evaluateText_JString avaliar_flags avaliar_score)
  have b: "distinct ?bs" "distinct ?ss"
    using distinct_wordlists by simp_all
  have c: "distinct (map ((@) ''BANNED:'') ?bs @ map ((@) ''SENSITIVE:'') ?ss)"
    using distinct_flags [of s] by (simp only: avaliar_flags)
  show ?thesis
    unfolding Let_def using a b c by blast
qed

theorem evaluateText_score_and_flags_witness:
  "evaluateText (JString ''URGENTE: pago 1.234,56 para MATAR; senha e arma'') =
     Inr \<lparr>score = 240, flags = [''BANNED:matar'', ''BANNED:arma'', ''SENSITIVE:senha'']\<rparr>"
proof -
  let ?s = "''URGENTE: pago 1.234,56 para MATAR; senha e arma''"
  have b: "filter (includes_str (toLowerCase ?s)) BANNED = [''matar'', ''arma'']"
    by code_simp
  have c: "filter (includes_str (toLowerCase ?s)) SENSITIVE = [''senha'']"
    by code_simp
  have d: "valores (toLowerCase ?s)" "urgencia (toLowerCase ?s)"
    by code_simp+
  show ?thesis
    using evaluateText_score_and_flags [of ?s] unfolding Let_def b c by (simp add: d)
qed

text \<open>
  C1. Take any text in which a term \<open>w\<close> of the banned list occurs. The flags of the scorer
  hold \<^verbatim>\<open>BANNED:w\<close> exactly once; more generally each banned term has its flag once
  when it occurs in the lower-cased text and not at all otherwise. When that text is the full
  text of the listing a job refers to, and the reads and writes of the handler succeed, the
  handler completes, the listing has status \<^verbatim>\<open>BANIDA\<close> and the score as
  \<^verbatim>\<open>riskScore\<close>, and the ledger has one more event, with action \<^verbatim>\<open>REJEITAR\<close> and
  the joined flags as reason. Nothing is assumed about the rest of the text.
\<close>

theorem banned_text_is_rejected:
  assumes "w \<in> set BANNED" and "includes_str t w"
  shows "evaluateText (JString t) = Inr (avaliar t)
     \<and> count_list (flags (avaliar t)) (''BANNED:'' @ w) = 1
     \<and> (\<forall>w' \<in> set BANNED. count_list (flags (avaliar t)) (''BANNED:'' @ w') =
            (if includes_str (toLowerCase t) w' then 1 else 0))
     \<and> (recompensas st (data_recompensaId j) = Some r \<and> fullText r = t
          \<and> \<not> falha_findUnique f \<and> \<not> falha_update f \<and> \<not> falha_evento f
        \<longrightarrow> worker f st j =
              (Inr (),
               st\<lparr>recompensas := (recompensas st)(data_recompensaId j \<mapsto>
                                      r\<lparr>status := BANIDA, riskScore := Some (score (avaliar t))\<rparr>),
                   eventos := eventos st @
                     [\<lparr>recompensaId = data_recompensaId j, recursoTipo = ''Recompensa'',
                       recursoId = data_recompensaId j, acao = REJEITAR,
                       motivo = join '', '' (flags (avaliar t))\<rparr>]\<rparr>))"
proof -
  have l: "list_all (\<lambda>w. toLowerCase w = w) BANNED"
    using lower_wordlists by simp
  have m: "includes_str (toLowerCase t) w"
    using l assms by (rule includes_lower)
  have c1: "count_list (flags (avaliar t)) (''BANNED:'' @ w) = 1"
    using assms(1) m by (simp only: count_banned_flag simp_thms if_True)
  have c2: "\<forall>w' \<in> set BANNED. count_list (flags (avaliar t)) (''BANNED:'' @ w') =
            (if includes_str (toLowerCase t) w' then 1 else 0)"
  proof
    fix w' assume "w' \<in> set BANNED"
    then show "count_list (flags (avaliar t)) (''BANNED:'' @ w') =
            (if includes_str (toLowerCase t) w' then 1 else 0)"
      by (simp only: count_banned_flag simp_thms)
  qed
  have b: "\<exists>w \<in> set BANNED. includes_str (toLowerCase t) w"
    using assms(1) m by blast
  have k: "worker f st j =
              (Inr (),
               st\<lparr>recompensas := (recompensas st)(data_recompensaId j \<mapsto>
                                      r\<lparr>status := BANIDA, riskScore := Some (score (avaliar t))\<rparr>),
                   eventos := eventos st @
                     [\<lparr>recompensaId = data_recompensaId j, recursoTipo = ''Recompensa'',
                       recursoId = data_recompensaId j, acao = REJEITAR,
                       motivo = join '', '' (flags (avaliar t))\<rparr>]\<rparr>)"
    if "recompensas st (data_recompensaId j) = Some r" "fullText r = t"
       "\<not> falha_findUnique f" "\<not> falha_update f" "\<not> falha_evento f"
    using that b by (simp add: worker_found [OF that(1) that(3)] Let_def evento_def del: append.simps)
  show ?thesis
    using c1 c2 k by (simp only: evaluateText_JString simp_thms) blast
qed

theorem banned_text_is_rejected_witness:
  "''sequestro'' \<in> set BANNED
   \<and> includes_str (fullText (recompensa_exemplo ''Procura-se'' ''sequestro: MONITORAR, pago 1.500,00'' EM_REVISAO None)) ''sequestro''
   \<and> recompensas (estado_exemplo (recompensa_exemplo ''Procura-se'' ''sequestro: MONITORAR, pago 1.500,00'' EM_REVISAO None)) 7
       = Some (recompensa_exemplo ''Procura-se'' ''sequestro: MONITORAR, pago 1.500,00'' EM_REVISAO None)
   \<and> worker sem_falhas (estado_exemplo (recompensa_exemplo ''Procura-se'' ''sequestro: MONITORAR, pago 1.500,00'' EM_REVISAO None)) job_exemplo =
       (Inr (),
        \<lparr>recompensas = [7 \<mapsto> recompensa_exemplo ''Procura-se'' ''sequestro: MONITORAR, pago 1.500,00'' BANIDA (Some 135)],
         proximoId = 8,
         eventos = [\<lparr>recompensaId = 7, recursoTipo = ''Recompensa'', recursoId = 7, acao = REJEITAR,
                     motivo = ''BANNED:sequestro, SENSITIVE:monitorar''\<rparr>],
         fila = []\<rparr>)"
proof -
  let ?r = "recompensa_exemplo ''Procura-se'' ''sequestro: MONITORAR, pago 1.500,00'' EM_REVISAO None"
  let ?st = "estado_exemplo ?r"
  have h1: "''sequestro'' \<in> set BANNED"
    by code_simp
  have h2: "includes_str (fullText ?r) ''sequestro''"
    by code_simp
  have h3: "recompensas ?st (data_recompensaId job_exemplo) = Some ?r"
    by (simp add: estado_exemplo_def job_exemplo_def)
  have e: "avaliar (fullText ?r) =
      \<lparr>score = 135, flags = [''BANNED:sequestro'', ''SENSITIVE:monitorar'']\<rparr>"
    by code_simp
  have n: "\<not> falha_findUnique sem_falhas \<and> \<not> falha_update sem_falhas \<and> \<not> falha_evento sem_falhas"
    by (simp add: sem_falhas_def)
  have "worker sem_falhas ?st job_exemplo =
     (Inr (),
      ?st\<lparr>recompensas := (recompensas ?st)(data_recompensaId job_exemplo \<mapsto>
                                      ?r\<lparr>status := BANIDA, riskScore := Some (score (avaliar (fullText ?r)))\<rparr>),
          eventos := eventos ?st @
                     [\<lparr>recompensaId = data_recompensaId job_exemplo, recursoTipo = ''Recompensa'',
                       recursoId = data_recompensaId job_exemplo, acao = REJEITAR,
                       motivo = join '', '' (flags (avaliar (fullText ?r)))\<rparr>]\<rparr>)"
    using banned_text_is_rejected [OF h1 h2, of ?st job_exemplo ?r sem_falhas] h3 n by blast
  then have "worker sem_falhas ?st job_exemplo =
     (Inr (),
      ?st\<lparr>recompensas := (recompensas ?st)(7 \<mapsto> ?r\<lparr>status := BANIDA, riskScore := Some 135\<rparr>),
          eventos := eventos ?st @
                     [\<lparr>recompensaId = 7, recursoTipo = ''Recompensa'', recursoId = 7, acao = REJEITAR,
                       motivo = ''BANNED:sequestro, SENSITIVE:monitorar''\<rparr>]\<rparr>)"
    unfolding e by (simp add: job_exemplo_def)
  then show ?thesis
    using h1 h2 h3 by (simp add: estado_exemplo_def job_exemplo_def recompensa_exemplo_def)
qed

text \<open>
  C8. When the listing a job refers to is not in the store (and the lookup itself answers),
  the handler returns normally and leaves the whole state as it was: no row is written and
  no event is appended. The queue therefore makes one run of the job and no retry.
\<close>

theorem absent_listing_is_discarded:
  assumes "recompensas st (data_recompensaId j) = None" and "\<not> falha_findUnique f"
  shows "worker f st j = (Inr (), st) \<and> processar (f # fs) st j = (True, 1, st)"
proof -
  have "worker f st j = (Inr (), st)"
    using assms by (simp add: worker_def recompensa_findUnique_def)
  then show ?thesis
    by (simp add: processar_def attempts_def numeral_3_eq_3)
qed

theorem absent_listing_is_discarded_witness:
  "recompensas (estado_exemplo (recompensa_exemplo ''Procura-se'' ''gato'' EM_REVISAO None)) 9 = None
   \<and> \<not> falha_findUnique sem_falhas
   \<and> worker sem_falhas (estado_exemplo (recompensa_exemplo ''Procura-se'' ''gato'' EM_REVISAO None))
        \<lparr>nome = ''recompensa'', data_recompensaId = 9\<rparr>
       = (Inr (), estado_exemplo (recompensa_exemplo ''Procura-se'' ''gato'' EM_REVISAO None))
   \<and> processar [sem_falhas] (estado_exemplo (recompensa_exemplo ''Procura-se'' ''gato'' EM_REVISAO None))
        \<lparr>nome = ''recompensa'', data_recompensaId = 9\<rparr>
       = (True, 1, estado_exemplo (recompensa_exemplo ''Procura-se'' ''gato'' EM_REVISAO None))"
proof -
  let ?st = "estado_exemplo (recompensa_exemplo ''Procura-se'' ''gato'' EM_REVISAO None)"
  let ?j = "\<lparr>nome = ''recompensa'', data_recompensaId = 9\<rparr>"
  have h1: "recompensas ?st (data_recompensaId ?j) = None"
    by (simp add: estado_exemplo_def)
  have h2: "\<not> falha_findUnique sem_falhas"
    by (simp add: sem_falhas_def)
  show ?thesis
    using absent_listing_is_discarded [OF h1 h2, of "[]"] h1 h2 by simp
qed

text \<open>
  C6 (as amended). For a listing with title \<^verbatim>\<open>Help find my dog\<close> and description
  \<^verbatim>\<open>Reward for safe return, urgent!\<close> the scorer returns score 0 and no flag: the
  urgency markers of the code are \<^verbatim>\<open>urgente\<close> and \<^verbatim>\<open>imediato\<close>, and neither
  occurs in the text. The score is below 40, so, when the reads and writes of the handler
  succeed, the worker sets the status to \<^verbatim>\<open>PUBLICADA\<close>, stores 0 as \<^verbatim>\<open>riskScore\<close>
  and appends an event with action \<^verbatim>\<open>APROVAR\<close> and reason \<^verbatim>\<open>auto\<close>.
\<close>

theorem help_find_my_dog_published:
  assumes "recompensas st (data_recompensaId j) = Some r"
    and "titulo r = ''Help find my dog''"
    and "descricao r = ''Reward for safe return, urgent!''"
    and "\<not> falha_findUnique f" and "\<not> falha_update f" and "\<not> falha_evento f"
  shows "evaluateText (JString (fullText r)) = Inr \<lparr>score = 0, flags = []\<rparr>
     \<and> worker f st j =
         (Inr (),
          st\<lparr>recompensas := (recompensas st)(data_recompensaId j \<mapsto>
                                 r\<lparr>status := PUBLICADA, riskScore := Some 0\<rparr>),
              eventos := eventos st @
                [\<lparr>recompensaId = data_recompensaId j, recursoTipo = ''Recompensa'',
                  recursoId = data_recompensaId j, acao = APROVAR, motivo = ''auto''\<rparr>]\<rparr>)"
proof -
  have t: "fullText r = ''Help find my dog'' @ [CHR 0x0A] @ ''Reward for safe return, urgent!''"
    using assms(2,3) by (simp add: fullText_def)
  have e: "avaliar (''Help find my dog'' @ [CHR 0x0A] @ ''Reward for safe return, urgent!'')
      = \<lparr>score = 0, flags = []\<rparr>"
    by code_simp
  have e': "avaliar (fullText r) = \<lparr>score = 0, flags = []\<rparr>"
    unfolding t by (rule e)
  have b: "\<not> (\<exists>w \<in> set BANNED. includes_str (toLowerCase (fullText r)) w)"
    using flags_banned_iff [of "fullText r"] unfolding e' by simp
  show ?thesis
    using b assms(4,5,6)
    by (simp add: worker_found [OF assms(1) assms(4)] evaluateText_JString Let_def evento_def e')
qed

theorem help_find_my_dog_published_witness:
  "recompensas (estado_exemplo (recompensa_exemplo ''Help find my dog'' ''Reward for safe return, urgent!'' EM_REVISAO None)) 7
       = Some (recompensa_exemplo ''Help find my dog'' ''Reward for safe return, urgent!'' EM_REVISAO None)
   \<and> worker sem_falhas (estado_exemplo (recompensa_exemplo ''Help find my dog'' ''Reward for safe return, urgent!'' EM_REVISAO None)) job_exemplo =
       (Inr (),
        \<lparr>recompensas = [7 \<mapsto> recompensa_exemplo ''Help find my dog'' ''Reward for safe return, urgent!'' PUBLICADA (Some 0)],
         proximoId = 8,
         eventos = [\<lparr>recompensaId = 7, recursoTipo = ''Recompensa'', recursoId = 7, acao = APROVAR,
                     motivo = ''auto''\<rparr>],
         fila = []\<rparr>)"
proof -
  let ?r = "recompensa_exemplo ''Help find my dog'' ''Reward for safe return, urgent!'' EM_REVISAO None"
  let ?st = "estado_exemplo ?r"
  have h1: "recompensas ?st (data_recompensaId job_exemplo) = Some ?r"
    by (simp add: estado_exemplo_def job_exemplo_def)
  have h2: "titulo ?r = ''Help find my dog''"
    by (simp add: recompensa_exemplo_def)
  have h3: "descricao ?r = ''Reward for safe return, urgent!''"
    by (simp add: recompensa_exemplo_def)
  have n: "\<not> falha_findUnique sem_falhas" "\<not> falha_update sem_falhas" "\<not> falha_evento sem_falhas"
    by (simp_all add: sem_falhas_def)
  show ?thesis
    using help_find_my_dog_published [OF h1 h2 h3 n] h1
    by (simp add: estado_exemplo_def job_exemplo_def recompensa_exemplo_def)
qed

text \<open>
  C6 as stated fails: on that input the score is 0, not at least 5, because the English
  \<^verbatim>\<open>urgent!\<close> is not an urgency marker of the code.
\<close>

theorem help_find_my_dog_counterexample:
  "evaluateText (JString (''Help find my dog'' @ [CHR 0x0A] @ ''Reward for safe return, urgent!''))
     = Inr \<lparr>score = 0, flags = []\<rparr>
   \<and> \<not> urgencia (toLowerCase (''Help find my dog'' @ [CHR 0x0A] @ ''Reward for safe return, urgent!''))
   \<and> \<not> 5 \<le> score (projr (evaluateText
          (JString (''Help find my dog'' @ [CHR 0x0A] @ ''Reward for safe return, urgent!''))))"
  by code_simp

text \<open>
  C10 (as amended). \<^verbatim>\<open>evaluateText\<close> returns score 0 and no flag for \<^verbatim>\<open>undefined\<close>,
  for \<^verbatim>\<open>null\<close>, for the empty string and for every other falsy value: all of them
  become the empty string. For a truthy value it scores the string the value converts to.
  It returns a result for every value but a truthy one whose conversion to a string throws;
  for such a value the conversion's exception leaves \<^verbatim>\<open>evaluateText\<close>.
\<close>

theorem evaluateText_total_on_convertible:
  "evaluateText JUndefined = Inr \<lparr>score = 0, flags = []\<rparr>
   \<and> evaluateText JNull = Inr \<lparr>score = 0, flags = []\<rparr>
   \<and> evaluateText (JString []) = Inr \<lparr>score = 0, flags = []\<rparr>
   \<and> (\<not> ToBoolean v \<longrightarrow> evaluateText v = Inr \<lparr>score = 0, flags = []\<rparr>)
   \<and> (ToBoolean v \<and> ToString v = Inr s \<longrightarrow> evaluateText v = Inr (avaliar s))
   \<and> (v \<noteq> JOther True None \<longrightarrow> (\<exists>a. evaluateText v = Inr a))
   \<and> (v = JOther True None \<longrightarrow> evaluateText v = Inl TypeError)"
proof -
  have z: "avaliar [] = \<lparr>score = 0, flags = []\<rparr>"
    by code_simp
  have f: "evaluateText u = Inr \<lparr>score = 0, flags = []\<rparr>" if "\<not> ToBoolean u" for u
    using that by (simp add: evaluateText_def coerce_def z)
  have t: "evaluateText u = Inr (avaliar s')" if "ToBoolean u" "ToString u = Inr s'" for u s'
    using that by (simp add: evaluateText_def coerce_def)
  have x: "\<exists>a. evaluateText v = Inr a" if "v \<noteq> JOther True None"
  proof (cases "ToBoolean v")
    case False
    then show ?thesis using f by blast
  next
    case True
    with that obtain s' where "ToString v = Inr s'"
      by (cases v) (auto split: option.splits)
    with True show ?thesis using t by blast
  qed
  have y: "evaluateText (JOther True None) = Inl TypeError"
    by (simp add: evaluateText_def coerce_def)
  show ?thesis
    using f [of JUndefined] f [of JNull] f [of "JString []"] f [of v] t [of v s] x y by simp
qed

theorem evaluateText_total_on_convertible_witness:
  "\<not> ToBoolean (JOther False (Some ''0''))
   \<and> evaluateText (JOther False (Some ''0'')) = Inr \<lparr>score = 0, flags = []\<rparr>
   \<and> ToBoolean (JOther True (Some ''42'')) \<and> ToString (JOther True (Some ''42'')) = Inr ''42''
   \<and> evaluateText (JOther True (Some ''42'')) = Inr \<lparr>score = 5, flags = []\<rparr>"
proof -
  have a: "avaliar ''42'' = \<lparr>score = 5, flags = []\<rparr>"
    by code_simp
  show ?thesis
    using evaluateText_total_on_convertible [of "JOther False (Some ''0'')"]
      evaluateText_total_on_convertible [of "JOther True (Some ''42'')" "''42''"]
    by (simp add: a)
qed

text \<open>
  C10 as stated fails: an object without a usable \<^verbatim>\<open>toString\<close> is a non-string value,
  and on it \<^verbatim>\<open>evaluateText\<close> throws instead of returning a result.
\<close>

theorem evaluateText_throws_counterexample:
  "ToBoolean (JOther True None) \<and> evaluateText (JOther True None) = Inl TypeError"
  by (simp add: evaluateText_def coerce_def)

text \<open>
  C7. A request whose body the schema rejects (a required field missing or malformed) is
  answered at once with status 400 and the validation error; the state is as it was, so no
  row is inserted and no job is enqueued. For a body the schema accepts, when the insert
  and the enqueue succeed, the row of the data is stored under a new id with status
  \<^verbatim>\<open>EM_REVISAO\<close> and no \<^verbatim>\<open>riskScore\<close>, a job with that id is appended to the queue,
  and the answer carries that id and that status. In a reachable state the new id is not
  in use, so the insert overwrites nothing.
\<close>

theorem post_recompensas_validates_then_enqueues:
  "(esquema body = None \<longrightarrow>
      post_recompensas esquema f u body st = (Erro400 ValidationError, st))
   \<and> (esquema body = Some c \<and> \<not> falha_create f \<and> \<not> falha_add f \<longrightarrow>
        post_recompensas esquema f u body st =
          (Json200 (proximoId st) EM_REVISAO,
           st\<lparr>recompensas := (recompensas st)(proximoId st \<mapsto> linha c u EM_REVISAO),
               proximoId := Suc (proximoId st),
               fila := fila st @ [\<lparr>nome = ''recompensa'', data_recompensaId = proximoId st\<rparr>]\<rparr>)
        \<and> status (linha c u EM_REVISAO) = EM_REVISAO
        \<and> riskScore (linha c u EM_REVISAO) = None
        \<and> titulo (linha c u EM_REVISAO) = titulo c
        \<and> descricao (linha c u EM_REVISAO) = descricao c)
   \<and> (alcancavel esquema st \<longrightarrow> recompensas st (proximoId st) = None)"
proof -
  have a: "post_recompensas esquema f u body st = (Erro400 ValidationError, st)"
    if "esquema body = None"
    using that by (simp add: post_recompensas_def recompensa_create_def)
  have b: "post_recompensas esquema f u body st =
          (Json200 (proximoId st) EM_REVISAO,
           st\<lparr>recompensas := (recompensas st)(proximoId st \<mapsto> linha c u EM_REVISAO),
               proximoId := Suc (proximoId st),
               fila := fila st @ [\<lparr>nome = ''recompensa'', data_recompensaId = proximoId st\<rparr>]\<rparr>)"
    if "esquema body = Some c" "\<not> falha_create f" "\<not> falha_add f"
    using that
    by (simp add: post_recompensas_def recompensa_create_def enqueueRecompensaModeration_def
        Let_def linha_def)
  have c: "status (linha c u EM_REVISAO) = EM_REVISAO" "riskScore (linha c u EM_REVISAO) = None"
    "titulo (linha c u EM_REVISAO) = titulo c" "descricao (linha c u EM_REVISAO) = descricao c"
    by (simp_all add: linha_def)
  show ?thesis
    using a b c proximoId_fresh [of esquema st] by blast
qed

theorem post_recompensas_validates_then_enqueues_witness:
  "esquema_exemplo (Some ''Procura-se'', None) = None
   \<and> post_recompensas esquema_exemplo sem_falhas 1 (Some ''Procura-se'', None) estado_inicial
       = (Erro400 ValidationError, estado_inicial)
   \<and> esquema_exemplo (Some ''Procura-se'', Some ''gato perdido'') = Some (campos_exemplo ''Procura-se'' ''gato perdido'')
   \<and> \<not> falha_create sem_falhas \<and> \<not> falha_add sem_falhas
   \<and> post_recompensas esquema_exemplo sem_falhas 1 (Some ''Procura-se'', Some ''gato perdido'') estado_inicial
       = (Json200 0 EM_REVISAO,
          \<lparr>recompensas = [0 \<mapsto> recompensa_exemplo ''Procura-se'' ''gato perdido'' EM_REVISAO None],
           proximoId = 1, eventos = [],
           fila = [\<lparr>nome = ''recompensa'', data_recompensaId = 0\<rparr>]\<rparr>)
   \<and> alcancavel esquema_exemplo estado_inicial
   \<and> recompensas estado_inicial (proximoId estado_inicial) = None"
proof -
  have h1: "esquema_exemplo (Some ''Procura-se'', None) = None"
    by (simp add: esquema_exemplo_def)
  have h2: "esquema_exemplo (Some ''Procura-se'', Some ''gato perdido'')
      = Some (campos_exemplo ''Procura-se'' ''gato perdido'')"
    by (simp add: esquema_exemplo_def)
  have h3: "\<not> falha_create sem_falhas" "\<not> falha_add sem_falhas"
    by (simp_all add: sem_falhas_def)
  have h4: "alcancavel esquema_exemplo estado_inicial"
    by (rule alcancavel.inicio)
  have l: "linha (campos_exemplo ''Procura-se'' ''gato perdido'') (Suc 0) EM_REVISAO
      = recompensa_exemplo ''Procura-se'' ''gato perdido'' EM_REVISAO None"
    by (simp add: linha_def campos_exemplo_def recompensa_exemplo_def)
  show ?thesis
    using post_recompensas_validates_then_enqueues
        [of esquema_exemplo "(Some ''Procura-se'', None)" sem_falhas 1 estado_inicial]
      post_recompensas_validates_then_enqueues
        [of esquema_exemplo "(Some ''Procura-se'', Some ''gato perdido'')" sem_falhas 1
            estado_inicial "campos_exemplo ''Procura-se'' ''gato perdido''"]
      h1 h2 h3 h4
    by (simp add: l estado_inicial_def)
qed

text \<open>
  C5. A row has a \<^verbatim>\<open>riskScore\<close> exactly when its status is \<^verbatim>\<open>PUBLICADA\<close> or
  \<^verbatim>\<open>BANIDA\<close>: this holds in the empty database and every run of either handler keeps
  it, whichever calls fail. The producer stores the new row with status \<^verbatim>\<open>EM_REVISAO\<close>
  and no \<^verbatim>\<open>riskScore\<close>. When the score is at least 40 and no flag is a
  \<^verbatim>\<open>BANNED\<close> one, the worker leaves every row as it is and appends an event with
  action \<^verbatim>\<open>AJUSTAR\<close> and the joined flags as reason. A run of the worker changes no row
  but the one of its job, and when it changes that row the row gets a \<^verbatim>\<open>riskScore\<close>
  together with one of the two final statuses.
\<close>

theorem riskScore_iff_terminal:
  "inv_riskScore estado_inicial
   \<and> (inv_riskScore st \<and> passo esquema st st1 \<longrightarrow> inv_riskScore st1)
   \<and> (post_recompensas esquema f u body st = (Json200 i s, st2) \<longrightarrow>
        s = EM_REVISAO \<and>
        (\<exists>r. recompensas st2 i = Some r \<and> status r = EM_REVISAO \<and> riskScore r = None))
   \<and> (recompensas st (data_recompensaId j) = Some r
        \<and> \<not> list_ex (\<lambda>fl. startsWith fl ''BANNED'') (flags (avaliar (fullText r)))
        \<and> score (avaliar (fullText r)) \<ge> 40
        \<and> \<not> falha_findUnique f \<and> \<not> falha_evento f \<longrightarrow>
        worker f st j =
          (Inr (), st\<lparr>eventos := eventos st @
             [\<lparr>recompensaId = data_recompensaId j, recursoTipo = ''Recompensa'',
               recursoId = data_recompensaId j, acao = AJUSTAR,
               motivo = join '', '' (flags (avaliar (fullText r)))\<rparr>]\<rparr>))
   \<and> (worker f st j = (res, st3) \<and> recompensas st3 k = Some r' \<and> recompensas st k \<noteq> Some r' \<longrightarrow>
        k = data_recompensaId j \<and> riskScore r' \<noteq> None \<and>
        (status r' = PUBLICADA \<or> status r' = BANIDA))"
proof -
  have a: "inv_riskScore estado_inicial"
    by (simp add: inv_riskScore_def estado_inicial_def)
  have b: "inv_riskScore st1" if "inv_riskScore st" "passo esquema st st1"
    using that(2,1) by (rule inv_riskScore_passo)
  have c: "s = EM_REVISAO \<and>
        (\<exists>r. recompensas st2 i = Some r \<and> status r = EM_REVISAO \<and> riskScore r = None)"
    if "post_recompensas esquema f u body st = (Json200 i s, st2)"
    using that
    by (auto simp: post_recompensas_def recompensa_create_def enqueueRecompensaModeration_def
        Let_def linha_def split: option.splits if_splits)
  note d = worker_ajustar [of st j r f]
  note e = worker_writes_riskScore [of f st j res st3 k r']
  show ?thesis
    using a b c d e by blast
qed

theorem riskScore_iff_terminal_witness:
  "inv_riskScore (estado_exemplo (recompensa_exemplo ''Consulta'' ''monitorar a senha'' EM_REVISAO None))
   \<and> recompensas (estado_exemplo (recompensa_exemplo ''Consulta'' ''monitorar a senha'' EM_REVISAO None)) 7
        = Some (recompensa_exemplo ''Consulta'' ''monitorar a senha'' EM_REVISAO None)
   \<and> avaliar (fullText (recompensa_exemplo ''Consulta'' ''monitorar a senha'' EM_REVISAO None))
        = \<lparr>score = 60, flags = [''SENSITIVE:monitorar'', ''SENSITIVE:senha'']\<rparr>
   \<and> worker sem_falhas (estado_exemplo (recompensa_exemplo ''Consulta'' ''monitorar a senha'' EM_REVISAO None)) job_exemplo
        = (Inr (),
           \<lparr>recompensas = [7 \<mapsto> recompensa_exemplo ''Consulta'' ''monitorar a senha'' EM_REVISAO None],
            proximoId = 8,
            eventos = [\<lparr>recompensaId = 7, recursoTipo = ''Recompensa'', recursoId = 7, acao = AJUSTAR,
                        motivo = ''SENSITIVE:monitorar, SENSITIVE:senha''\<rparr>],
            fila = []\<rparr>)
   \<and> passo esquema_exemplo
        (estado_exemplo (recompensa_exemplo ''Consulta'' ''monitorar a senha'' EM_REVISAO None))
        \<lparr>recompensas = [7 \<mapsto> recompensa_exemplo ''Consulta'' ''monitorar a senha'' EM_REVISAO None],
         proximoId = 8,
         eventos = [\<lparr>recompensaId = 7, recursoTipo = ''Recompensa'', recursoId = 7, acao = AJUSTAR,
                     motivo = ''SENSITIVE:monitorar, SENSITIVE:senha''\<rparr>],
         fila = []\<rparr>
   \<and> inv_riskScore
        \<lparr>recompensas = [7 \<mapsto> recompensa_exemplo ''Consulta'' ''monitorar a senha'' EM_REVISAO None],
         proximoId = 8,
         eventos = [\<lparr>recompensaId = 7, recursoTipo = ''Recompensa'', recursoId = 7, acao = AJUSTAR,
                     motivo = ''SENSITIVE:monitorar, SENSITIVE:senha''\<rparr>],
         fila = []\<rparr>"
proof -
  let ?r = "recompensa_exemplo ''Consulta'' ''monitorar a senha'' EM_REVISAO None"
  let ?st = "estado_exemplo ?r"
  let ?st1 = "\<lparr>recompensas = [7 \<mapsto> ?r], proximoId = 8,
         eventos = [\<lparr>recompensaId = 7, recursoTipo = ''Recompensa'', recursoId = 7, acao = AJUSTAR,
                     motivo = ''SENSITIVE:monitorar, SENSITIVE:senha''\<rparr>],
         fila = []\<rparr>"
  have h0: "inv_riskScore ?st"
    by (simp add: inv_riskScore_def estado_exemplo_def recompensa_exemplo_def)
  have h1: "recompensas ?st (data_recompensaId job_exemplo) = Some ?r"
    by (simp add: estado_exemplo_def job_exemplo_def)
  have e: "avaliar (fullText ?r) = \<lparr>score = 60, flags = [''SENSITIVE:monitorar'', ''SENSITIVE:senha'']\<rparr>"
    by code_simp
  have h2: "\<not> list_ex (\<lambda>fl. startsWith fl ''BANNED'') (flags (avaliar (fullText ?r)))"
    unfolding e by (simp add: startsWith_def)
  have h3: "score (avaliar (fullText ?r)) \<ge> 40"
    unfolding e by simp
  have h4: "\<not> falha_findUnique sem_falhas" "\<not> falha_evento sem_falhas"
    by (simp_all add: sem_falhas_def)
  note t = riskScore_iff_terminal [where st = ?st and j = job_exemplo and r = ?r
      and f = sem_falhas and esquema = esquema_exemplo and ?st1.0 = ?st1]
  have w: "worker sem_falhas ?st job_exemplo = (Inr (), ?st1)"
    using t h1 h2 h3 h4 unfolding e by (simp add: estado_exemplo_def job_exemplo_def)
  have p: "passo esquema_exemplo ?st ?st1"
    using w by (rule passo.moderar)
  have i: "inv_riskScore ?st1"
    using t h0 p by blast
  show ?thesis
    using h0 h1 e w p i by (simp add: job_exemplo_def)
qed

text \<open>
  C3 (as amended). Take a job whose listing is found. The handler throws exactly when a
  write it attempts fails (the status update or the ledger append in the
  \<^verbatim>\<open>REJEITAR\<close> and \<^verbatim>\<open>APROVAR\<close> branches, the ledger append alone in the
  \<^verbatim>\<open>AJUSTAR\<close> branch), so the queue runs the job again. The two writes are separate
  calls, one after the other, with no transaction around them. When the first write of the
  branch fails the state is unchanged. When the update succeeds and the ledger append fails,
  the status and the \<^verbatim>\<open>riskScore\<close> written by the update stay and the ledger has no new
  event; if the next run meets no failure, the job completes on that second run in the state
  that a single run without failures would have produced.
\<close>

theorem failed_write_fails_the_job:
  assumes "recompensas st (data_recompensaId j) = Some r" and "\<not> falha_findUnique f"
  shows "(let a = avaliar (fullText r);
              banida = list_ex (\<lambda>fl. startsWith fl ''BANNED'') (flags a);
              ajustar = (\<not> banida \<and> score a \<ge> 40)
          in (fst (worker f st j) = Inl InfraError)
               = (if ajustar then falha_evento f else falha_update f \<or> falha_evento f)
             \<and> ((if ajustar then falha_evento f else falha_update f) \<longrightarrow>
                  snd (worker f st j) = st)
             \<and> (\<not> ajustar \<and> \<not> falha_update f \<and> falha_evento f \<longrightarrow>
                  snd (worker f st j) =
                    st\<lparr>recompensas := (recompensas st)(data_recompensaId j \<mapsto>
                         r\<lparr>status := (if banida then BANIDA else PUBLICADA),
                           riskScore := Some (score a)\<rparr>)\<rparr>
                  \<and> (\<not> falha_findUnique g \<and> \<not> falha_update g \<and> \<not> falha_evento g \<longrightarrow>
                        processar (f # g # fs) st j = (True, 2, snd (worker g st j)))))"
proof -
  let ?a = "avaliar (fullText r)"
  let ?banida = "list_ex (\<lambda>fl. startsWith fl ''BANNED'') (flags ?a)"
  let ?ajustar = "\<not> ?banida \<and> score ?a \<ge> 40"
  let ?st1 = "st\<lparr>recompensas := (recompensas st)(data_recompensaId j \<mapsto>
                         r\<lparr>status := (if ?banida then BANIDA else PUBLICADA),
                           riskScore := Some (score ?a)\<rparr>)\<rparr>"
  have 1: "(fst (worker f st j) = Inl InfraError)
               = (if ?ajustar then falha_evento f else falha_update f \<or> falha_evento f)"
    using assms by (rule worker_falha_iff)
  have 2: "snd (worker f st j) = st" if "if ?ajustar then falha_evento f else falha_update f"
    using worker_primeira_falha [OF assms that] by simp
  have 3: "worker f st j = (Inl InfraError, ?st1)"
    if "\<not> ?ajustar" "\<not> falha_update f" "falha_evento f"
    using that worker_evento_falha [OF assms(1) _ assms(2), of ] by blast
  have 4: "processar (f # g # fs) st j = (True, 2, snd (worker g st j))"
    if "\<not> ?ajustar" "\<not> falha_update f" "falha_evento f"
      "\<not> falha_findUnique g" "\<not> falha_update g" "\<not> falha_evento g"
  proof -
    have b: "?banida \<or> \<not> score ?a \<ge> 40"
      using that(1) by blast
    have "worker g ?st1 j = (Inr (), snd (worker g st j))"
      using assms(1) b that(4,5,6) by (rule worker_rerun)
    then show ?thesis
      using 3 [OF that(1,2,3)]
      by (simp add: processar_def attempts_def numeral_3_eq_3)
  qed
  have 5: "snd (worker f st j) = ?st1"
    if "\<not> ?ajustar \<and> \<not> falha_update f \<and> falha_evento f"
    using 3 that by simp
  have 6: "processar (f # g # fs) st j = (True, 2, snd (worker g st j))"
    if "\<not> ?ajustar \<and> \<not> falha_update f \<and> falha_evento f"
      "\<not> falha_findUnique g \<and> \<not> falha_update g \<and> \<not> falha_evento g"
    using 4 that by simp
  show ?thesis
    unfolding Let_def
  proof (intro conjI impI)
    show "(fst (worker f st j) = Inl InfraError)
               = (if ?ajustar then falha_evento f else falha_update f \<or> falha_evento f)"
      by (rule 1)
  next
    assume "if ?ajustar then falha_evento f else falha_update f"
    then show "snd (worker f st j) = st"
      by (rule 2)
  next
    assume "\<not> ?ajustar \<and> \<not> falha_update f \<and> falha_evento f"
    then show "snd (worker f st j) = ?st1"
      by (rule 5)
  next
    assume "\<not> ?ajustar \<and> \<not> falha_update f \<and> falha_evento f"
      and "\<not> falha_findUnique g \<and> \<not> falha_update g \<and> \<not> falha_evento g"
    then show "processar (f # g # fs) st j = (True, 2, snd (worker g st j))"
      by (rule 6)
  qed
qed

theorem failed_write_fails_the_job_witness:
  "recompensas (estado_exemplo (recompensa_exemplo ''Procura-se'' ''gato perdido'' EM_REVISAO None)) 7
       = Some (recompensa_exemplo ''Procura-se'' ''gato perdido'' EM_REVISAO None)
   \<and> \<not> falha_findUnique (sem_falhas\<lparr>falha_evento := True\<rparr>)
   \<and> fst (worker (sem_falhas\<lparr>falha_evento := True\<rparr>)
        (estado_exemplo (recompensa_exemplo ''Procura-se'' ''gato perdido'' EM_REVISAO None)) job_exemplo)
       = Inl InfraError
   \<and> snd (worker (sem_falhas\<lparr>falha_evento := True\<rparr>)
        (estado_exemplo (recompensa_exemplo ''Procura-se'' ''gato perdido'' EM_REVISAO None)) job_exemplo)
       = estado_exemplo (recompensa_exemplo ''Procura-se'' ''gato perdido'' PUBLICADA (Some 0))
   \<and> processar [sem_falhas\<lparr>falha_evento := True\<rparr>, sem_falhas]
        (estado_exemplo (recompensa_exemplo ''Procura-se'' ''gato perdido'' EM_REVISAO None)) job_exemplo
       = (True, 2,
          snd (worker sem_falhas
            (estado_exemplo (recompensa_exemplo ''Procura-se'' ''gato perdido'' EM_REVISAO None)) job_exemplo))"
proof -
  let ?r = "recompensa_exemplo ''Procura-se'' ''gato perdido'' EM_REVISAO None"
  let ?st = "estado_exemplo ?r"
  let ?f = "sem_falhas\<lparr>falha_evento := True\<rparr>"
  have h1: "recompensas ?st (data_recompensaId job_exemplo) = Some ?r"
    by (simp add: estado_exemplo_def job_exemplo_def)
  have h2: "\<not> falha_findUnique ?f"
    by (simp add: sem_falhas_def)
  have e: "avaliar (fullText ?r) = \<lparr>score = 0, flags = []\<rparr>"
    by code_simp
  have n: "\<not> falha_update ?f" "falha_evento ?f" "\<not> falha_findUnique sem_falhas"
    "\<not> falha_update sem_falhas" "\<not> falha_evento sem_falhas"
    by (simp_all add: sem_falhas_def)
  have u: "?st\<lparr>recompensas := (recompensas ?st)(data_recompensaId job_exemplo \<mapsto>
                ?r\<lparr>status := PUBLICADA, riskScore := Some 0\<rparr>)\<rparr>
           = estado_exemplo (recompensa_exemplo ''Procura-se'' ''gato perdido'' PUBLICADA (Some 0))"
    by (simp add: estado_exemplo_def recompensa_exemplo_def job_exemplo_def)
  note t = failed_write_fails_the_job [OF h1 h2, of sem_falhas "[]", unfolded Let_def e]
  have t1: "fst (worker ?f ?st job_exemplo) = Inl InfraError"
    using t n by simp
  have t2: "snd (worker ?f ?st job_exemplo) =
       estado_exemplo (recompensa_exemplo ''Procura-se'' ''gato perdido'' PUBLICADA (Some 0))"
    using t n u by simp
  have t3: "processar [?f, sem_falhas] ?st job_exemplo
       = (True, 2, snd (worker sem_falhas ?st job_exemplo))"
    using t n by simp
  have h1': "recompensas ?st 7 = Some ?r"
    using h1 by (simp add: job_exemplo_def)
  show ?thesis
    using h1' h2 t1 t2 t3 by blast
qed

text \<open>
  C3 as stated fails: when the ledger append fails after the update, the handler throws
  and the listing already has its new status and \<^verbatim>\<open>riskScore\<close>.
\<close>

theorem failed_append_keeps_update_counterexample:
  "fst (worker (sem_falhas\<lparr>falha_evento := True\<rparr>)
        (estado_exemplo (recompensa_exemplo ''Procura-se'' ''gato perdido'' EM_REVISAO None)) job_exemplo)
       = Inl InfraError
   \<and> recompensas (estado_exemplo (recompensa_exemplo ''Procura-se'' ''gato perdido'' EM_REVISAO None)) 7
       = Some (recompensa_exemplo ''Procura-se'' ''gato perdido'' EM_REVISAO None)
   \<and> recompensas (snd (worker (sem_falhas\<lparr>falha_evento := True\<rparr>)
        (estado_exemplo (recompensa_exemplo ''Procura-se'' ''gato perdido'' EM_REVISAO None)) job_exemplo)) 7
       = Some (recompensa_exemplo ''Procura-se'' ''gato perdido'' PUBLICADA (Some 0))
   \<and> snd (worker (sem_falhas\<lparr>falha_evento := True\<rparr>)
        (estado_exemplo (recompensa_exemplo ''Procura-se'' ''gato perdido'' EM_REVISAO None)) job_exemplo)
       \<noteq> estado_exemplo (recompensa_exemplo ''Procura-se'' ''gato perdido'' EM_REVISAO None)"
proof -
  let ?r = "recompensa_exemplo ''Procura-se'' ''gato perdido'' EM_REVISAO None"
  let ?st = "estado_exemplo ?r"
  let ?f = "sem_falhas\<lparr>falha_evento := True\<rparr>"
  have h1: "recompensas ?st (data_recompensaId job_exemplo) = Some ?r"
    by (simp add: estado_exemplo_def job_exemplo_def)
  have e: "avaliar (fullText ?r) = \<lparr>score = 0, flags = []\<rparr>"
    by code_simp
  have b: "list_ex (\<lambda>fl. startsWith fl ''BANNED'') (flags (avaliar (fullText ?r)))
            \<or> \<not> score (avaliar (fullText ?r)) \<ge> 40"
    unfolding e by simp
  have n: "\<not> falha_findUnique ?f" "\<not> falha_update ?f" "falha_evento ?f"
    by (simp_all add: sem_falhas_def)
  have w: "worker ?f ?st job_exemplo =
      (Inl InfraError, estado_exemplo (recompensa_exemplo ''Procura-se'' ''gato perdido'' PUBLICADA (Some 0)))"
    using worker_evento_falha [OF h1 b n] unfolding e
    by (simp add: estado_exemplo_def recompensa_exemplo_def job_exemplo_def)
  have d: "estado_exemplo (recompensa_exemplo ''Procura-se'' ''gato perdido'' PUBLICADA (Some 0)) \<noteq> ?st"
  proof
    assume "estado_exemplo (recompensa_exemplo ''Procura-se'' ''gato perdido'' PUBLICADA (Some 0)) = ?st"
    then have "recompensas (estado_exemplo (recompensa_exemplo ''Procura-se'' ''gato perdido'' PUBLICADA (Some 0))) 7
        = recompensas ?st 7"
      by simp
    then show False
      by (simp add: estado_exemplo_def recompensa_exemplo_def)
  qed
  show ?thesis
    unfolding w using d by (simp add: estado_exemplo_def)
qed

text \<open>
  C9 (as amended). Appending content to a text never removes a matched term or urgency
  marker: every banned or sensitive term that occurs in the lower-cased text still occurs
  after the append, and so does an urgency marker. The numeral pattern can stop matching,
  because the appended content may continue a numeral with a word character. So the score
  after the append is at least the score before minus 5; it is at least the score before
  whenever the numeral pattern still matches (or did not match before), and whenever the
  append brings a term or an urgency marker that was not matched before. The score depends
  only on which terms occur and on whether the numeral pattern and the urgency markers
  match: two texts that agree on these have the same score and the same flags, wherever the
  terms stand in them.
\<close>

theorem score_monotone_up_to_numeral:
  "(\<forall>w. includes_str (toLowerCase t) w \<longrightarrow> includes_str (toLowerCase (t @ e)) w)
   \<and> (urgencia (toLowerCase t) \<longrightarrow> urgencia (toLowerCase (t @ e)))
   \<and> score (avaliar t) \<le> score (avaliar (t @ e)) + 5
   \<and> (valores (toLowerCase (t @ e)) \<or> \<not> valores (toLowerCase t) \<longrightarrow>
        score (avaliar t) \<le> score (avaliar (t @ e)))
   \<and> ((\<exists>w \<in> set (BANNED @ SENSITIVE).
          includes_str (toLowerCase (t @ e)) w \<and> \<not> includes_str (toLowerCase t) w)
       \<or> (urgencia (toLowerCase (t @ e)) \<and> \<not> urgencia (toLowerCase t)) \<longrightarrow>
        score (avaliar t) \<le> score (avaliar (t @ e)))
   \<and> ((\<forall>w \<in> set (BANNED @ SENSITIVE).
          includes_str (toLowerCase t) w = includes_str (toLowerCase t') w)
       \<and> valores (toLowerCase t) = valores (toLowerCase t')
       \<and> urgencia (toLowerCase t) = urgencia (toLowerCase t') \<longrightarrow>
        avaliar t = avaliar t')"
proof -
  let ?P = "includes_str (toLowerCase t)"
  let ?Q = "includes_str (toLowerCase (t @ e))"
  have inc: "?Q w" if "?P w" for w
    using that by (rule includes_lower_append)
  have urg: "urgencia (toLowerCase (t @ e))" if "urgencia (toLowerCase t)"
    using that by (rule urgencia_append)
  have b: "length (filter ?P BANNED) \<le> length (filter ?Q BANNED)"
    by (rule length_filter_mono) (rule inc)
  have s: "length (filter ?P SENSITIVE) \<le> length (filter ?Q SENSITIVE)"
    by (rule length_filter_mono) (rule inc)
  have u: "urgencia (toLowerCase t) \<longrightarrow> urgencia (toLowerCase (t @ e))"
    using urg by simp
  have 3: "score (avaliar t) \<le> score (avaliar (t @ e)) + 5"
    unfolding avaliar_score using b s u by auto
  have 4: "score (avaliar t) \<le> score (avaliar (t @ e))"
    if "valores (toLowerCase (t @ e)) \<or> \<not> valores (toLowerCase t)"
    unfolding avaliar_score using b s u that by auto
  have 5: "score (avaliar t) \<le> score (avaliar (t @ e))"
    if "(\<exists>w \<in> set (BANNED @ SENSITIVE). ?Q w \<and> \<not> ?P w)
       \<or> (urgencia (toLowerCase (t @ e)) \<and> \<not> urgencia (toLowerCase t))"
    using that
  proof (elim disjE bexE conjE)
    fix w assume w: "w \<in> set (BANNED @ SENSITIVE)" "?Q w" "\<not> ?P w"
    then consider "w \<in> set BANNED" | "w \<in> set SENSITIVE"
      by auto
    then show ?thesis
    proof cases
      case 1
      have "length (filter ?P BANNED) < length (filter ?Q BANNED)"
        using inc 1 w(2,3) by (rule length_filter_strict)
      then show ?thesis
        unfolding avaliar_score using s u by auto
    next
      case 2
      have "length (filter ?P SENSITIVE) < length (filter ?Q SENSITIVE)"
        using inc 2 w(2,3) by (rule length_filter_strict)
      then show ?thesis
        unfolding avaliar_score using b u by auto
    qed
  next
    assume "urgencia (toLowerCase (t @ e))" "\<not> urgencia (toLowerCase t)"
    then show ?thesis
      unfolding avaliar_score using b s by auto
  qed
  have 6: "avaliar t = avaliar t'"
    if "(\<forall>w \<in> set (BANNED @ SENSITIVE). ?P w = includes_str (toLowerCase t') w)
       \<and> valores (toLowerCase t) = valores (toLowerCase t')
       \<and> urgencia (toLowerCase t) = urgencia (toLowerCase t')"
  proof -
    have fb: "filter ?P BANNED = filter (includes_str (toLowerCase t')) BANNED"
      using that by (intro filter_cong_set) auto
    have fs: "filter ?P SENSITIVE = filter (includes_str (toLowerCase t')) SENSITIVE"
      using that by (intro filter_cong_set) auto
    have "score (avaliar t) = score (avaliar t')" "flags (avaliar t) = flags (avaliar t')"
      unfolding avaliar_score avaliar_flags fb fs using that by simp_all
    then show ?thesis
      by simp
  qed
  show ?thesis
    using inc urg 3 4 5 6 by blast
qed

theorem score_monotone_up_to_numeral_witness:
  "valores (toLowerCase (''senha 10 urgente matar'' @ '' e drogas 20''))
   \<and> ''drogas'' \<in> set (BANNED @ SENSITIVE)
   \<and> includes_str (toLowerCase (''senha 10 urgente matar'' @ '' e drogas 20'')) ''drogas''
   \<and> \<not> includes_str (toLowerCase ''senha 10 urgente matar'') ''drogas''
   \<and> score (avaliar ''senha 10 urgente matar'')
        \<le> score (avaliar (''senha 10 urgente matar'' @ '' e drogas 20''))
   \<and> filter (includes_str (toLowerCase ''senha 10 urgente matar'')) (BANNED @ SENSITIVE)
        = [''matar'', ''senha'']
   \<and> filter (includes_str (toLowerCase ''MATAR, urgente: 10 (senha)'')) (BANNED @ SENSITIVE)
        = [''matar'', ''senha'']
   \<and> valores (toLowerCase ''senha 10 urgente matar'')
   \<and> valores (toLowerCase ''MATAR, urgente: 10 (senha)'')
   \<and> urgencia (toLowerCase ''senha 10 urgente matar'')
   \<and> urgencia (toLowerCase ''MATAR, urgente: 10 (senha)'')
   \<and> avaliar ''senha 10 urgente matar'' = avaliar ''MATAR, urgente: 10 (senha)''"
proof -
  have f1: "filter (includes_str (toLowerCase ''senha 10 urgente matar'')) (BANNED @ SENSITIVE)
        = [''matar'', ''senha'']"
    by code_simp
  have f2: "filter (includes_str (toLowerCase ''MATAR, urgente: 10 (senha)'')) (BANNED @ SENSITIVE)
        = [''matar'', ''senha'']"
    by code_simp
  have v: "valores (toLowerCase ''senha 10 urgente matar'')"
    "valores (toLowerCase ''MATAR, urgente: 10 (senha)'')"
    "urgencia (toLowerCase ''senha 10 urgente matar'')"
    "urgencia (toLowerCase ''MATAR, urgente: 10 (senha)'')"
    by code_simp+
  have h1: "valores (toLowerCase (''senha 10 urgente matar'' @ '' e drogas 20''))"
    by code_simp
  have h2: "''drogas'' \<in> set (BANNED @ SENSITIVE)"
    by code_simp
  have h3: "includes_str (toLowerCase (''senha 10 urgente matar'' @ '' e drogas 20'')) ''drogas''"
    by code_simp
  have h4: "\<not> includes_str (toLowerCase ''senha 10 urgente matar'') ''drogas''"
    by code_simp
  have h5: "\<forall>w \<in> set (BANNED @ SENSITIVE).
          includes_str (toLowerCase ''senha 10 urgente matar'') w
            = includes_str (toLowerCase ''MATAR, urgente: 10 (senha)'') w"
    by code_simp
  have h6: "valores (toLowerCase ''senha 10 urgente matar'')
        = valores (toLowerCase ''MATAR, urgente: 10 (senha)'')"
    by code_simp
  have h7: "urgencia (toLowerCase ''senha 10 urgente matar'')
        = urgencia (toLowerCase ''MATAR, urgente: 10 (senha)'')"
    by code_simp
  note t = score_monotone_up_to_numeral
    [of "''senha 10 urgente matar''" "'' e drogas 20''" "''MATAR, urgente: 10 (senha)''"]
  have c1: "score (avaliar ''senha 10 urgente matar'')
        \<le> score (avaliar (''senha 10 urgente matar'' @ '' e drogas 20''))"
    using t h1 by blast
  have c2: "avaliar ''senha 10 urgente matar'' = avaliar ''MATAR, urgente: 10 (senha)''"
    using t h5 h6 h7 by blast
  show ?thesis
    using h1 h2 h3 h4 f1 f2 v c1 c2 by blast
qed

text \<open>
  C9 as stated fails: \<^verbatim>\<open>urgente 1\<close> scores 10 (urgency and numeral); appending the
  urgency marker \<^verbatim>\<open>urgente\<close> once more gives \<^verbatim>\<open>urgente 1urgente\<close>, in which the
  numeral is followed by a letter and the pattern matches no more: the score drops to 5.
\<close>

theorem score_drops_on_append_counterexample:
  "urgencia (toLowerCase ''urgente'')
   \<and> evaluateText (JString ''urgente 1'') = Inr \<lparr>score = 10, flags = []\<rparr>
   \<and> evaluateText (JString (''urgente 1'' @ ''urgente'')) = Inr \<lparr>score = 5, flags = []\<rparr>
   \<and> \<not> score (avaliar ''urgente 1'') \<le> score (avaliar (''urgente 1'' @ ''urgente''))"
  by code_simp

text \<open>
  C2. In every state that the two handlers produce from the empty database, a listing whose
  status is \<^verbatim>\<open>PUBLICADA\<close> or \<^verbatim>\<open>BANIDA\<close> keeps its status and its
  \<^verbatim>\<open>riskScore\<close> through every further run of either handler, whichever calls fail: a
  listing makes at most one transition, from \<^verbatim>\<open>EM_REVISAO\<close> to a final status, and
  nothing leads out of a final status. In particular a job delivered again after the
  transition leaves the status and the \<^verbatim>\<open>riskScore\<close> of its listing as they are: what
  the worker writes is computed from the text of the listing, which no handler changes, so
  it is what the row already holds. In any state at all, no run of the worker gives a row
  the status \<^verbatim>\<open>EM_REVISAO\<close>.
\<close>

theorem terminal_status_is_final:
  assumes "alcancavel esquema st" and "recompensas st k = Some r" and "status r \<noteq> EM_REVISAO"
  shows "((passo esquema)\<^sup>*\<^sup>* st st1 \<longrightarrow> recompensas st1 k = Some r)
     \<and> (worker f st j = (res, st2) \<longrightarrow> recompensas st2 k = Some r)
     \<and> (worker g st3 j3 = (res3, st4) \<and> recompensas st4 k4 = Some r4 \<and> status r4 = EM_REVISAO
          \<longrightarrow> recompensas st3 k4 = Some r4)"
proof (intro conjI impI)
  assume "(passo esquema)\<^sup>*\<^sup>* st st1"
  then show "recompensas st1 k = Some r"
    using assms by (rule rtranclp_keeps_terminal)
next
  assume "worker f st j = (res, st2)"
  then have "passo esquema st st2"
    by (rule passo.moderar)
  then have "(passo esquema)\<^sup>*\<^sup>* st st2"
    by (rule r_into_rtranclp)
  then show "recompensas st2 k = Some r"
    using assms by (rule rtranclp_keeps_terminal)
next
  assume "worker g st3 j3 = (res3, st4) \<and> recompensas st4 k4 = Some r4 \<and> status r4 = EM_REVISAO"
  then show "recompensas st3 k4 = Some r4"
    using worker_never_back_to_review by blast
qed

theorem terminal_status_is_final_witness:
  "alcancavel esquema_exemplo estado_moderado
   \<and> recompensas estado_moderado 0
        = Some (recompensa_exemplo ''Procura-se'' ''gato perdido'' PUBLICADA (Some 0))
   \<and> status (recompensa_exemplo ''Procura-se'' ''gato perdido'' PUBLICADA (Some 0)) \<noteq> EM_REVISAO
   \<and> worker sem_falhas estado_moderado \<lparr>nome = ''recompensa'', data_recompensaId = 0\<rparr>
        = (Inr (),
           estado_moderado\<lparr>eventos :=
             [\<lparr>recompensaId = 0, recursoTipo = ''Recompensa'', recursoId = 0,
               acao = APROVAR, motivo = ''auto''\<rparr>,
              \<lparr>recompensaId = 0, recursoTipo = ''Recompensa'', recursoId = 0,
               acao = APROVAR, motivo = ''auto''\<rparr>]\<rparr>)
   \<and> recompensas (estado_moderado\<lparr>eventos :=
             [\<lparr>recompensaId = 0, recursoTipo = ''Recompensa'', recursoId = 0,
               acao = APROVAR, motivo = ''auto''\<rparr>,
              \<lparr>recompensaId = 0, recursoTipo = ''Recompensa'', recursoId = 0,
               acao = APROVAR, motivo = ''auto''\<rparr>]\<rparr>) 0
        = Some (recompensa_exemplo ''Procura-se'' ''gato perdido'' PUBLICADA (Some 0))"
proof -
  let ?j = "\<lparr>nome = ''recompensa'', data_recompensaId = 0\<rparr>"
  let ?r0 = "recompensa_exemplo ''Procura-se'' ''gato perdido'' EM_REVISAO None"
  let ?r1 = "recompensa_exemplo ''Procura-se'' ''gato perdido'' PUBLICADA (Some 0)"
  let ?st1 = "\<lparr>recompensas = [0 \<mapsto> ?r0], proximoId = 1, eventos = [], fila = [?j]\<rparr>"
  let ?ev = "\<lparr>recompensaId = 0, recursoTipo = ''Recompensa'', recursoId = 0,
               acao = APROVAR, motivo = ''auto''\<rparr>"
  have n: "\<not> falha_findUnique sem_falhas" "\<not> falha_update sem_falhas" "\<not> falha_evento sem_falhas"
    by (simp_all add: sem_falhas_def)
  have z: "\<not> (0::int) \<ge> 40"
    by simp
  have p1: "post_recompensas esquema_exemplo sem_falhas 1 (Some ''Procura-se'', Some ''gato perdido'')
      estado_inicial = (Json200 0 EM_REVISAO, ?st1)"
    by (simp add: post_recompensas_def recompensa_create_def enqueueRecompensaModeration_def
        esquema_exemplo_def sem_falhas_def estado_inicial_def linha_def campos_exemplo_def
        recompensa_exemplo_def Let_def)
  have a1: "alcancavel esquema_exemplo ?st1"
    using alcancavel.inicio passo.criar [OF p1] by (rule alcancavel.avanca)
  have e0: "avaliar (fullText ?r0) = \<lparr>score = 0, flags = []\<rparr>"
    by code_simp
  have e1: "avaliar (fullText ?r1) = \<lparr>score = 0, flags = []\<rparr>"
    by code_simp
  have l1: "recompensas ?st1 (data_recompensaId ?j) = Some ?r0"
    by simp
  have w1: "worker sem_falhas ?st1 ?j = (Inr (), estado_moderado)"
    using worker_aprova [OF l1 e0 z n]
    by (simp add: estado_moderado_def recompensa_exemplo_def)
  have a2: "alcancavel esquema_exemplo estado_moderado"
    using a1 passo.moderar [OF w1] by (rule alcancavel.avanca)
  have l2: "recompensas estado_moderado (data_recompensaId ?j) = Some ?r1"
    by (simp add: estado_moderado_def)
  have w2: "worker sem_falhas estado_moderado ?j = (Inr (), estado_moderado\<lparr>eventos := [?ev, ?ev]\<rparr>)"
    using worker_aprova [OF l2 e1 z n]
    by (simp add: estado_moderado_def recompensa_exemplo_def)
  have l2': "recompensas estado_moderado 0 = Some ?r1"
    using l2 by simp
  have s: "status ?r1 \<noteq> EM_REVISAO"
    by (simp add: recompensa_exemplo_def)
  have c: "recompensas (estado_moderado\<lparr>eventos := [?ev, ?ev]\<rparr>) 0 = Some ?r1"
    using terminal_status_is_final [OF a2 l2' s, of _ sem_falhas ?j] w2 by blast
  show ?thesis
    using a2 l2' s w2 c by blast
qed

end
